theory Spec2Isabelle
  imports Complex_Main "HOL-Library.Sublist" "HOL-Library.AList"
begin

section \<open>Data model\<close>

text \<open>
  The program (\<^verbatim>\<open>scripts/data_processing.py\<close>) loads a table of real-estate offers
  into a pandas DataFrame, runs six validation stages over it and writes the survivors.

  A Python \<^verbatim>\<open>str\<close> held in a cell is a sequence of Unicode code points, and the
  character classes the program tests (\<^verbatim>\<open>\d\<close> of the \<^verbatim>\<open>re\<close> module,
  \<^verbatim>\<open>str.isnumeric\<close>) are classes of code points: a cell string is a list of
  code points. Column labels and log messages are only compared and concatenated, so
  they are plain strings.
\<close>

type_synonym pystr = "nat list"

definition py :: "string \<Rightarrow> pystr" where
  "py s = map of_char s"

text \<open>
  The Unicode character database of the interpreter is not part of the repository; the
  two properties the program reads from it are taken as a parameter: the value of a
  decimal digit (\<^verbatim>\<open>\d\<close> matches exactly the code points that have one, and
  \<^verbatim>\<open>float\<close> reads them by that value) and the class \<^verbatim>\<open>str.isnumeric\<close> tests.
\<close>

record unicode =
  decimal :: "nat \<Rightarrow> nat option"
  numeric :: "nat \<Rightarrow> bool"

text \<open>The database restricted to ASCII, where the ten digits are the only members of both classes.\<close>

definition ascii :: unicode where
  "ascii = \<lparr> decimal = (\<lambda>c. if 48 \<le> c \<and> c \<le> 57 then Some (c - 48) else None),
             numeric = (\<lambda>c. 48 \<le> c \<and> c \<le> 57) \<rparr>"

section \<open>Floating-point numbers\<close>

text \<open>
  A float64 value: a finite value, given by the rational number it denotes (\<open>Fin 0\<close>
  is the positive zero), the negative zero, the two infinities, and \<^verbatim>\<open>NaN\<close>.
\<close>

datatype float64 = Fin rat | NZero | PInf | NInf | NaN

fun is_nan :: "float64 \<Rightarrow> bool" where
  "is_nan NaN = True"
| "is_nan _ = False"

fun is_inf :: "float64 \<Rightarrow> bool" where
  "is_inf PInf = True"
| "is_inf NInf = True"
| "is_inf _ = False"

fun is_zero :: "float64 \<Rightarrow> bool" where
  "is_zero (Fin x) = (x = 0)"
| "is_zero NZero = True"
| "is_zero _ = False"

fun negative :: "float64 \<Rightarrow> bool" where
  "negative (Fin x) = (x < 0)"
| "negative NZero = True"
| "negative NInf = True"
| "negative _ = False"

fun fin_value :: "float64 \<Rightarrow> rat" where
  "fin_value (Fin x) = x"
| "fin_value _ = 0"

definition signed_inf :: "bool \<Rightarrow> float64" where
  "signed_inf neg = (if neg then NInf else PInf)"

definition signed_zero :: "bool \<Rightarrow> float64" where
  "signed_zero neg = (if neg then NZero else Fin 0)"

text \<open>The number of binary digits of a natural number.\<close>

fun bit_length :: "nat \<Rightarrow> nat" where
  "bit_length n = (if n = 0 then 0 else Suc (bit_length (n div 2)))"

declare bit_length.simps [simp del]

definition pow2 :: "int \<Rightarrow> rat" where
  "pow2 k = (if 0 \<le> k then 2 ^ nat k else 1 / 2 ^ nat (- k))"

text \<open>For \<open>0 < x\<close>, the exponent \<open>e\<close> with \<open>2 ^ e \<le> x < 2 ^ (e + 1)\<close>.\<close>

definition exponent :: "rat \<Rightarrow> int" where
  "exponent x =
     (if 1 \<le> x then int (bit_length (nat \<lfloor>x\<rfloor>)) - 1
      else - int (bit_length (nat \<lceil>1 / x\<rceil> - 1)))"

text \<open>The nearest integer to \<open>y\<close>, the even one of the two when \<open>y\<close> lies halfway.\<close>

definition round_half_even :: "rat \<Rightarrow> int" where
  "round_half_even y =
     (let n = \<lfloor>y\<rfloor>; f = y - of_int n
      in if f < 1 / 2 then n else if 1 / 2 < f then n + 1 else if even n then n else n + 1)"

text \<open>
  Rounding to the nearest float64 (IEEE 754 binary64, ties to even), for \<open>0 < x\<close>: the
  result is a multiple of \<open>2 ^ (e - 52)\<close>, where \<open>e\<close> is the exponent of \<open>x\<close> and at
  least \<open>-1022\<close> (below that the values are subnormal); a result of \<open>2 ^ 1024\<close> or more
  is an overflow, \<open>None\<close>.
\<close>

definition round64_pos :: "rat \<Rightarrow> rat option" where
  "round64_pos x =
     (let e = max (exponent x) (- 1022);
          u = pow2 (e - 52);
          y = of_int (round_half_even (x / u)) * u
      in if y < pow2 1024 then Some y else None)"

definition round64 :: "rat \<Rightarrow> float64" where
  "round64 x =
     (if x = 0 then Fin 0
      else if 0 < x then (case round64_pos x of None \<Rightarrow> PInf | Some y \<Rightarrow> Fin y)
      else (case round64_pos (- x) of
              None \<Rightarrow> NInf
            | Some y \<Rightarrow> if y = 0 then NZero else Fin (- y)))"

text \<open>
  Float division as the hardware does it and as numpy uses it on float64 arrays: the
  exact quotient rounded to the nearest float64; a division by zero gives an infinity
  or \<^verbatim>\<open>NaN\<close>, never an exception.
\<close>

definition truediv :: "float64 \<Rightarrow> float64 \<Rightarrow> float64" where
  "truediv x y =
     (if is_nan x \<or> is_nan y then NaN
      else if is_inf x then (if is_inf y then NaN else signed_inf (negative x \<noteq> negative y))
      else if is_inf y then signed_zero (negative x \<noteq> negative y)
      else if is_zero y then (if is_zero x then NaN else signed_inf (negative x \<noteq> negative y))
      else if is_zero x then signed_zero (negative x \<noteq> negative y)
      else round64 (fin_value x / fin_value y))"

section \<open>Tables\<close>

text \<open>
  A cell holds \<^verbatim>\<open>None\<close> (\<open>CNull\<close>), an integer, a float or a string. A column has a
  dtype: the cells of an \<^verbatim>\<open>int64\<close> column are integers, those of a \<^verbatim>\<open>float64\<close>
  column are floats, whose missing values are \<^verbatim>\<open>NaN\<close>, and an \<^verbatim>\<open>object\<close> column
  holds Python objects of any of the four kinds.
\<close>

datatype cell = CNull | CInt int | CFloat float64 | CStr pystr

datatype dtype = Int64 | Float64 | Object

text \<open>
  A DataFrame is its ordered column labels, the dtype of each column, and its rows,
  each row carrying its index label and its cells by column label. A Series is a list
  of values with their index labels. Loading gives the rows the labels
  \<open>0, 1, 2, \<dots>\<close> (a RangeIndex).
\<close>

type_synonym row = "(string \<times> cell) list"

type_synonym 'a series = "(nat \<times> 'a) list"

record dataframe =
  columns :: "string list"
  dtypes :: "(string \<times> dtype) list"
  rows :: "(nat \<times> row) list"

datatype exn =
    KeyError string
  | TypeError
  | AttributeError
  | ZeroDivisionError
  | OverflowError
  | ValueError string
  | JSONDecodeError
  | LibraryError string

text \<open>
  The processor's state is its DataFrame (\<^verbatim>\<open>self.data\<close>) and the lines written to
  the log file so far. A raised exception is returned with the log as it stands when
  the exception is raised.
\<close>

record state =
  data :: dataframe
  log_lines :: "string list"

type_synonym 'a result = "(exn \<times> string list) + 'a"

definition ebind :: "'a result \<Rightarrow> ('a \<Rightarrow> 'b result) \<Rightarrow> 'b result" where
  "ebind m f = (case m of Inl e \<Rightarrow> Inl e | Inr x \<Rightarrow> f x)"

section \<open>Operations of the DataFrame library the program uses\<close>

definition cell_of :: "row \<Rightarrow> string \<Rightarrow> cell" where
  "cell_of r c = (case map_of r c of None \<Rightarrow> CNull | Some v \<Rightarrow> v)"

definition dtype_of :: "dataframe \<Rightarrow> string \<Rightarrow> dtype" where
  "dtype_of df c = (case map_of (dtypes df) c of None \<Rightarrow> Object | Some d \<Rightarrow> d)"

text \<open>\<^verbatim>\<open>df[c]\<close>: the column as a Series, \<^verbatim>\<open>KeyError\<close> when there is no such column.\<close>

definition getitem :: "dataframe \<Rightarrow> string \<Rightarrow> exn + cell series" where
  "getitem df c =
     (if c \<in> set (columns df) then Inr (map (\<lambda>(i, r). (i, cell_of r c)) (rows df))
      else Inl (KeyError c))"

text \<open>
  \<^verbatim>\<open>df[c] = values\<close>: replaces the column in place, or appends it as the last column;
  the column takes the dtype of the values.
\<close>

definition setitem :: "dataframe \<Rightarrow> string \<Rightarrow> dtype \<Rightarrow> cell series \<Rightarrow> dataframe" where
  "setitem df c d vs =
     \<lparr> columns = (if c \<in> set (columns df) then columns df else columns df @ [c]),
       dtypes = AList.update c d (dtypes df),
       rows = map (\<lambda>((i, r), (j, v)). (i, AList.update c v r)) (zip (rows df) vs) \<rparr>"

text \<open>\<^verbatim>\<open>df.drop(columns=[c])\<close> for a column that exists, and with \<^verbatim>\<open>errors='ignore'\<close>.\<close>

definition drop_column :: "dataframe \<Rightarrow> string \<Rightarrow> dataframe" where
  "drop_column df c =
     \<lparr> columns = filter (\<lambda>d. d \<noteq> c) (columns df),
       dtypes = AList.delete c (dtypes df),
       rows = map (\<lambda>(i, r). (i, AList.delete c r)) (rows df) \<rparr>"

text \<open>\<^verbatim>\<open>df[mask]\<close>: the rows whose mask entry is true, in order, with their labels.\<close>

definition select_rows :: "dataframe \<Rightarrow> bool series \<Rightarrow> dataframe" where
  "select_rows df msk =
     \<lparr> columns = columns df,
       dtypes = dtypes df,
       rows = map fst (filter (\<lambda>(x, (j, b)). b) (zip (rows df) msk)) \<rparr>"

definition map_series :: "('a \<Rightarrow> 'b) \<Rightarrow> 'a series \<Rightarrow> 'b series" where
  "map_series f ser = map (\<lambda>(i, v). (i, f v)) ser"

text \<open>\<^verbatim>\<open>~mask\<close>\<close>

definition invert :: "bool series \<Rightarrow> bool series" where
  "invert msk = map_series Not msk"

text \<open>\<^verbatim>\<open>isnull\<close>: \<^verbatim>\<open>None\<close> and \<^verbatim>\<open>NaN\<close> are the missing values.\<close>

fun isnull :: "cell \<Rightarrow> bool" where
  "isnull CNull = True"
| "isnull (CFloat f) = is_nan f"
| "isnull _ = False"

fun is_str :: "cell \<Rightarrow> bool" where
  "is_str (CStr s) = True"
| "is_str _ = False"

fun is_number :: "cell \<Rightarrow> bool" where
  "is_number (CInt i) = True"
| "is_number (CFloat q) = True"
| "is_number _ = False"

text \<open>
  A comparison with a number is applied to every cell of the column, and compares the
  exact values: an integer is not rounded for it. On a \<^verbatim>\<open>str\<close> cell it raises
  \<^verbatim>\<open>TypeError\<close>; a missing value compares false, like \<^verbatim>\<open>NaN\<close>.
\<close>

fun cell_value :: "cell \<Rightarrow> float64" where
  "cell_value (CInt i) = Fin (of_int i)"
| "cell_value (CFloat f) = f"
| "cell_value _ = NaN"

definition as_numeric :: "cell series \<Rightarrow> exn + float64 series" where
  "as_numeric ser =
     (if list_ex (\<lambda>(i, c). is_str c) ser then Inl TypeError
      else Inr (map_series cell_value ser))"

text \<open>\<^verbatim>\<open>Series.between(left, right)\<close>, both ends included; \<^verbatim>\<open>NaN\<close> is not between.\<close>

fun between_value :: "rat \<Rightarrow> rat \<Rightarrow> float64 \<Rightarrow> bool" where
  "between_value l r (Fin x) = (l \<le> x \<and> x \<le> r)"
| "between_value l r NZero = (l \<le> 0 \<and> 0 \<le> r)"
| "between_value l r _ = False"

definition between :: "float64 series \<Rightarrow> rat \<Rightarrow> rat \<Rightarrow> bool series" where
  "between ser l r = map_series (between_value l r) ser"

section \<open>Division of two columns\<close>

text \<open>
  On two columns of numeric dtype the division is numpy's: an \<^verbatim>\<open>int64\<close> operand is
  converted to float64, which rounds it, and the floats are divided.
\<close>

fun to_float :: "cell \<Rightarrow> float64" where
  "to_float (CInt i) = round64 (of_int i)"
| "to_float (CFloat f) = f"
| "to_float _ = NaN"

text \<open>
  When one of the columns is of dtype \<^verbatim>\<open>object\<close>, the division is Python's \<^verbatim>\<open>/\<close> on
  each pair of objects. It raises \<^verbatim>\<open>TypeError\<close> on \<^verbatim>\<open>None\<close> and on a string. Two
  integers are divided exactly and the quotient is rounded once; otherwise an integer
  operand is converted to a float first. An integer or a quotient of integers too
  large for a float raises \<^verbatim>\<open>OverflowError\<close>, and a zero divisor raises
  \<^verbatim>\<open>ZeroDivisionError\<close>.
\<close>

fun py_float :: "cell \<Rightarrow> exn + float64" where
  "py_float (CInt i) =
     (let f = round64 (of_int i) in if is_inf f then Inl OverflowError else Inr f)"
| "py_float (CFloat f) = Inr f"
| "py_float _ = Inl TypeError"

fun py_truediv :: "cell \<Rightarrow> cell \<Rightarrow> exn + float64" where
  "py_truediv (CInt x) (CInt y) =
     (if y = 0 then Inl ZeroDivisionError
      else (let f = round64 (of_int x / of_int y)
            in if is_inf f then Inl OverflowError else Inr f))"
| "py_truediv p a =
     (if \<not> is_number p \<or> \<not> is_number a then Inl TypeError
      else (case py_float p of
              Inl e \<Rightarrow> Inl e
            | Inr x \<Rightarrow>
                (case py_float a of
                   Inl e \<Rightarrow> Inl e
                 | Inr y \<Rightarrow> if is_zero y then Inl ZeroDivisionError else Inr (truediv x y))))"

text \<open>
  pandas first divides all pairs. When that raises \<^verbatim>\<open>TypeError\<close> it divides again,
  only the pairs without a missing value, and gives \<^verbatim>\<open>NaN\<close> for the others. Any other
  exception, and any exception of the second pass, leaves the operation.
\<close>

definition masked_truediv :: "cell \<Rightarrow> cell \<Rightarrow> exn + float64" where
  "masked_truediv p a = (if isnull p \<or> isnull a then Inr NaN else py_truediv p a)"

definition zip_with :: "('a \<Rightarrow> 'b \<Rightarrow> 'c) \<Rightarrow> 'a series \<Rightarrow> 'b series \<Rightarrow> 'c series" where
  "zip_with f xs ys = map (\<lambda>((i, x), (j, y)). (i, f x y)) (zip xs ys)"

text \<open>The results of the elements, or the first exception in the order of the rows.\<close>

fun collect :: "(exn + 'a) series \<Rightarrow> exn + 'a series" where
  "collect [] = Inr []"
| "collect ((i, Inl e) # xs) = Inl e"
| "collect ((i, Inr v) # xs) =
     (case collect xs of Inl e \<Rightarrow> Inl e | Inr vs \<Rightarrow> Inr ((i, v) # vs))"

definition series_truediv ::
  "dtype \<Rightarrow> cell series \<Rightarrow> dtype \<Rightarrow> cell series \<Rightarrow> exn + float64 series" where
  "series_truediv dp ps da as =
     (if dp \<noteq> Object \<and> da \<noteq> Object
      then Inr (zip_with (\<lambda>p a. truediv (to_float p) (to_float a)) ps as)
      else (case collect (zip_with py_truediv ps as) of
              Inl TypeError \<Rightarrow> collect (zip_with masked_truediv ps as)
            | Inl e \<Rightarrow> Inl e
            | Inr qs \<Rightarrow> Inr qs))"

section \<open>Text operations\<close>

text \<open>\<^verbatim>\<open>str(n)\<close> of an index label, and \<^verbatim>\<open>sep.join(xs)\<close>.\<close>

fun str_nat :: "nat \<Rightarrow> string" where
  "str_nat n =
     (if n < 10 then [''0123456789'' ! n]
      else str_nat (n div 10) @ [''0123456789'' ! (n mod 10)])"

declare str_nat.simps [simp del]

definition str_int :: "int \<Rightarrow> string" where
  "str_int i = (if i < 0 then CHR ''-'' # str_nat (nat (- i)) else str_nat (nat i))"

fun join :: "string \<Rightarrow> string list \<Rightarrow> string" where
  "join sep [] = []"
| "join sep [x] = x"
| "join sep (x # y # ys) = x @ sep @ join sep (y # ys)"

definition is_digit :: "unicode \<Rightarrow> nat \<Rightarrow> bool" where
  "is_digit U c = (decimal U c \<noteq> None)"

text \<open>
  The pattern \<^verbatim>\<open>(\d+\.?\d*)\<close> tried at the start of a string: the greedy run of
  digits, one full stop if it follows, the greedy run of digits after it. No
  backtracking can change the result, since the last two parts may match nothing.
\<close>

definition match_price :: "unicode \<Rightarrow> pystr \<Rightarrow> pystr option" where
  "match_price U s =
     (let a = takeWhile (is_digit U) s; r = dropWhile (is_digit U) s
      in if a = [] then None
         else (case r of
                 [] \<Rightarrow> Some a
               | c # r' \<Rightarrow> if c = 46 then Some (a @ [46] @ takeWhile (is_digit U) r')
                           else Some a))"

text \<open>\<^verbatim>\<open>re.search\<close>, which \<^verbatim>\<open>str.extract\<close> uses: the match at the leftmost position that has one.\<close>

fun search_price :: "unicode \<Rightarrow> pystr \<Rightarrow> pystr option" where
  "search_price U [] = None"
| "search_price U (c # cs) =
     (case match_price U (c # cs) of Some m \<Rightarrow> Some m | None \<Rightarrow> search_price U cs)"

definition digits_value :: "unicode \<Rightarrow> pystr \<Rightarrow> nat" where
  "digits_value U ds = foldl (\<lambda>acc c. 10 * acc + (case decimal U c of None \<Rightarrow> 0 | Some d \<Rightarrow> d)) 0 ds"

text \<open>
  \<^verbatim>\<open>float(m)\<close> for a string \<open>m\<close> the pattern matched: digits, then possibly a full
  stop and digits. The result is the float64 nearest to the decimal number, and
  \<^verbatim>\<open>inf\<close> when the number is too large.
\<close>

definition decimal_value :: "unicode \<Rightarrow> pystr \<Rightarrow> rat" where
  "decimal_value U m =
     (let a = takeWhile (is_digit U) m;
          b = (case dropWhile (is_digit U) m of [] \<Rightarrow> [] | c # r' \<Rightarrow> r')
      in of_nat (digits_value U a) + of_nat (digits_value U b) / 10 ^ length b)"

definition float_of_match :: "unicode \<Rightarrow> pystr \<Rightarrow> float64" where
  "float_of_match U m = round64 (decimal_value U m)"

text \<open>
  \<^verbatim>\<open>.str.extract('(\d+\.?\d*)', expand=False).astype(float)\<close> on one cell: a cell
  that is no string, or a string without a match, gives \<^verbatim>\<open>NaN\<close>.
\<close>

fun extract_price :: "unicode \<Rightarrow> cell \<Rightarrow> cell" where
  "extract_price U (CStr s) =
     (case search_price U s of None \<Rightarrow> CFloat NaN | Some m \<Rightarrow> CFloat (float_of_match U m))"
| "extract_price U _ = CFloat NaN"

text \<open>
  The \<^verbatim>\<open>.str\<close> accessor raises \<^verbatim>\<open>AttributeError\<close> on a column of numeric dtype,
  and on an \<^verbatim>\<open>object\<close> column whose values, the missing ones left aside, are numbers
  only: it needs a string among them, or no value at all.
\<close>

definition str_accessor :: "dtype \<Rightarrow> cell series \<Rightarrow> exn + cell series" where
  "str_accessor d ser =
     (if d \<noteq> Object then Inl AttributeError
      else if list_ex (\<lambda>(i, c). is_number c \<and> \<not> isnull c) ser \<and> \<not> list_ex (\<lambda>(i, c). is_str c) ser
      then Inl AttributeError else Inr ser)"

definition str_isnumeric :: "unicode \<Rightarrow> pystr \<Rightarrow> bool" where
  "str_isnumeric U s = (s \<noteq> [] \<and> list_all (numeric U) s)"

text \<open>
  \<^verbatim>\<open>.astype(str).str.isnumeric()\<close> on one cell. The text of an integer is its decimal
  numeral; the text of a float always has a full stop, an exponent, \<^verbatim>\<open>inf\<close> or
  \<^verbatim>\<open>nan\<close> in it, and the text of \<^verbatim>\<open>None\<close> is \<^verbatim>\<open>None\<close>: neither is numeric.
\<close>

fun astype_str_isnumeric :: "unicode \<Rightarrow> cell \<Rightarrow> bool" where
  "astype_str_isnumeric U (CStr s) = str_isnumeric U s"
| "astype_str_isnumeric U (CInt i) = str_isnumeric U (py (str_int i))"
| "astype_str_isnumeric U (CFloat q) = False"
| "astype_str_isnumeric U CNull = False"

text \<open>
  \<^verbatim>\<open>re.match\<close> of \<^verbatim>\<open>^\d{4}-\d{2}-\d{2}$\<close>: four digits, a hyphen, two digits, a
  hyphen, two digits, and then the end of the string or one line feed before it.
\<close>

definition match_date :: "unicode \<Rightarrow> pystr \<Rightarrow> bool" where
  "match_date U s =
     (let t = (if length s = 11 \<and> last s = 10 then butlast s else s)
      in length t = 10 \<and> list_all (is_digit U) (take 4 t) \<and> t ! 4 = 45 \<and>
         list_all (is_digit U) (take 2 (drop 5 t)) \<and> t ! 7 = 45 \<and>
         list_all (is_digit U) (drop 8 t))"

text \<open>
  \<^verbatim>\<open>.astype(str).str.match(DATE_PATTERN)\<close> on one cell. The text of a number or of
  a null has no hyphen at its fifth and eighth place.
\<close>

fun astype_str_match_date :: "unicode \<Rightarrow> cell \<Rightarrow> bool" where
  "astype_str_match_date U (CStr s) = match_date U s"
| "astype_str_match_date U _ = False"

definition VALID_PROPERTY_TYPES :: "cell list" where
  "VALID_PROPERTY_TYPES = [CStr (py ''apartment''), CStr (py ''house'')]"

definition isin :: "cell list \<Rightarrow> cell \<Rightarrow> bool" where
  "isin vs c = (c \<in> set vs)"

section \<open>The processor\<close>

definition lift :: "exn + 'a \<Rightarrow> string list \<Rightarrow> 'a result" where
  "lift m lg = (case m of Inl e \<Rightarrow> Inl (e, lg) | Inr x \<Rightarrow> Inr x)"

text \<open>
  \<^verbatim>\<open>log_errors\<close>: when the condition holds of some row, one line is written: the
  message and the labels of \<^verbatim>\<open>condition.index\<close>, the index of the whole Series.
\<close>

definition log_errors :: "bool series \<Rightarrow> string \<Rightarrow> string list \<Rightarrow> string list" where
  "log_errors condition message lg =
     (if list_ex snd condition
      then lg @ [message @ '' Indices: '' @ join '', '' (map (\<lambda>(i, b). str_nat i) condition)]
      else lg)"

definition validate_id_column :: "unicode \<Rightarrow> state \<Rightarrow> state result" where
  "validate_id_column U s =
     ebind (lift (getitem (data s) ''id'') (log_lines s)) (\<lambda>ids.
       let lg1 = log_errors (map_series isnull ids) ''Null IDs found.'' (log_lines s);
           lg2 = log_errors (invert (map_series (astype_str_isnumeric U) ids))
                   ''ID is not a string or numeric.'' lg1
       in Inr (s\<lparr>log_lines := lg2\<rparr>))"

definition validate_clean_price :: "unicode \<Rightarrow> state \<Rightarrow> state result" where
  "validate_clean_price U s =
     (if ''raw_price'' \<in> set (columns (data s)) then
        ebind (lift (getitem (data s) ''raw_price'') (log_lines s)) (\<lambda>raw.
        ebind (lift (str_accessor (dtype_of (data s) ''raw_price'') raw) (log_lines s)) (\<lambda>strs.
          let df1 = setitem (data s) ''price'' Float64 (map_series (extract_price U) strs)
          in ebind (lift (getitem df1 ''price'') (log_lines s)) (\<lambda>price.
               Inr \<lparr> data = drop_column df1 ''raw_price'',
                     log_lines = log_errors (map_series isnull price)
                                   ''Invalid or null prices found.'' (log_lines s) \<rparr>)))
      else Inr (s\<lparr>log_lines := log_lines s @ [''raw_price column missing.'']\<rparr>))"

definition filter_by_price_per_sqm :: "state \<Rightarrow> state result" where
  "filter_by_price_per_sqm s =
     ebind (lift (getitem (data s) ''price'') (log_lines s)) (\<lambda>price.
     ebind (lift (getitem (data s) ''living_area'') (log_lines s)) (\<lambda>area.
     ebind (lift (series_truediv (dtype_of (data s) ''price'') price
                    (dtype_of (data s) ''living_area'') area) (log_lines s)) (\<lambda>ratio.
       let valid_offers = between ratio 500 15000
       in Inr (s\<lparr>data := select_rows (data s) valid_offers\<rparr>))))"

definition validate_living_area :: "state \<Rightarrow> state result" where
  "validate_living_area s =
     ebind (lift (getitem (data s) ''living_area'') (log_lines s)) (\<lambda>area.
     ebind (lift (as_numeric area) (log_lines s)) (\<lambda>a.
       let invalid_area = invert (between a 10 500)
       in Inr \<lparr> data = select_rows (data s) (invert invalid_area),
                 log_lines = log_errors invalid_area ''Invalid living_area values.'' (log_lines s) \<rparr>))"

definition validate_property_type :: "state \<Rightarrow> state result" where
  "validate_property_type s =
     ebind (lift (getitem (data s) ''property_type'') (log_lines s)) (\<lambda>types.
       let invalid_types = invert (map_series (isin VALID_PROPERTY_TYPES) types)
       in Inr (s\<lparr>log_lines := log_errors invalid_types
                   ''Invalid property types. Only 'apartment' or 'house' are allowed.''
                   (log_lines s)\<rparr>))"

definition validate_scraping_date :: "unicode \<Rightarrow> state \<Rightarrow> state result" where
  "validate_scraping_date U s =
     ebind (lift (getitem (data s) ''scraping_date'') (log_lines s)) (\<lambda>dates.
       let invalid_dates = invert (map_series (astype_str_match_date U) dates)
       in Inr (s\<lparr>log_lines := log_errors invalid_dates
                   ''Invalid date formats in scraping_date. Expected format 'YYYY-MM-DD'.''
                   (log_lines s)\<rparr>))"

text \<open>\<^verbatim>\<open>validate_and_clean\<close>: the six stages, in the order of the six calls.\<close>

definition validate_and_clean :: "unicode \<Rightarrow> state \<Rightarrow> state result" where
  "validate_and_clean U s =
     ebind (validate_id_column U s) (\<lambda>s1.
     ebind (validate_clean_price U s1) (\<lambda>s2.
     ebind (validate_living_area s2) (\<lambda>s3.
     ebind (filter_by_price_per_sqm s3) (\<lambda>s4.
     ebind (validate_property_type s4) (\<lambda>s5.
     validate_scraping_date U s5)))))"

section \<open>Loading\<close>

text \<open>
  The values \<^verbatim>\<open>json.loads\<close> returns. The JSON decoder, the DataFrame constructor
  and the file readers belong to the Python library and to pandas, not to the
  repository; they are taken as a parameter. \<open>json_decode\<close> is the decoder on a
  \<^verbatim>\<open>str\<close>, with \<open>None\<close> for \<^verbatim>\<open>JSONDecodeError\<close>.
\<close>

datatype pyval =
    PNone
  | PBool bool
  | PInt int
  | PFloat float64
  | PStr pystr
  | PList "pyval list"
  | PDict "(pystr \<times> pyval) list"

record library =
  read_text :: "string \<Rightarrow> pystr"
  json_decode :: "pystr \<Rightarrow> pyval option"
  DataFrame :: "pyval list \<Rightarrow> exn + dataframe"
  read_csv :: "string \<Rightarrow> exn + dataframe"
  read_avro :: "string \<Rightarrow> exn + dataframe"

text \<open>
  \<^verbatim>\<open>json.loads(v)\<close>: an argument that is neither \<^verbatim>\<open>str\<close> nor bytes raises
  \<^verbatim>\<open>TypeError\<close>, which is not a \<^verbatim>\<open>JSONDecodeError\<close>.
\<close>

definition json_loads :: "library \<Rightarrow> pyval \<Rightarrow> exn + pyval" where
  "json_loads L v =
     (case v of
        PStr s \<Rightarrow> (case json_decode L s of None \<Rightarrow> Inl JSONDecodeError | Some j \<Rightarrow> Inr j)
      | _ \<Rightarrow> Inl TypeError)"

text \<open>
  The \<^verbatim>\<open>try\<close> block of \<^verbatim>\<open>load_data\<close>: the content is decoded twice; only a
  \<^verbatim>\<open>JSONDecodeError\<close> of that leads to the single decoding, any other exception
  leaves the function.
\<close>

definition load_json_list :: "library \<Rightarrow> pystr \<Rightarrow> exn + pyval" where
  "load_json_list L content =
     (case (case json_loads L (PStr content) of Inl e \<Rightarrow> Inl e | Inr v \<Rightarrow> json_loads L v) of
        Inr data_list \<Rightarrow> Inr data_list
      | Inl JSONDecodeError \<Rightarrow>
          (case json_loads L (PStr content) of
             Inr data_list \<Rightarrow> Inr data_list
           | Inl e \<Rightarrow> Inl (ValueError ''Unable to parse the provided JSON data.''))
      | Inl e \<Rightarrow> Inl e)"

text \<open>
  \<^verbatim>\<open>load_data\<close>, from the lower-cased suffix of the path on (the suffix itself is
  computed by \<^verbatim>\<open>pathlib\<close>).
\<close>

definition load_data :: "library \<Rightarrow> string \<Rightarrow> string \<Rightarrow> exn + dataframe" where
  "load_data L file_ext path =
     (if file_ext = ''.json'' then
        (case load_json_list L (read_text L path) of
           Inl e \<Rightarrow> Inl e
         | Inr data_list \<Rightarrow>
             (case data_list of
                PList xs \<Rightarrow>
                  (case DataFrame L xs of
                     Inl e \<Rightarrow> Inl e
                   | Inr df \<Rightarrow> Inr (drop_column df ''municipality''))
              | _ \<Rightarrow> Inl (ValueError ''JSON content does not represent a list structure.'')))
      else if file_ext = ''.csv'' then read_csv L path
      else if file_ext = ''.avro'' then read_avro L path
      else Inl (ValueError (''Unsupported file format: '' @ file_ext)))"

section \<open>Row-wise readings of the two filters and of the price extraction\<close>

definition area_ok :: "row \<Rightarrow> bool" where
  "area_ok r = between_value 10 500 (cell_value (cell_of r ''living_area''))"

text \<open>
  The quotient the division of two columns gives for one row, when the division
  returns: a missing value gives \<^verbatim>\<open>NaN\<close>.
\<close>

definition quotient :: "dtype \<Rightarrow> dtype \<Rightarrow> cell \<Rightarrow> cell \<Rightarrow> float64" where
  "quotient dp da p a =
     (if dp \<noteq> Object \<and> da \<noteq> Object then truediv (to_float p) (to_float a)
      else (case masked_truediv p a of Inl e \<Rightarrow> NaN | Inr q \<Rightarrow> q))"

text \<open>\<^verbatim>\<open>price / living_area\<close> for one row of a DataFrame.\<close>

definition price_per_sqm :: "dataframe \<Rightarrow> row \<Rightarrow> float64" where
  "price_per_sqm df r =
     quotient (dtype_of df ''price'') (dtype_of df ''living_area'')
       (cell_of r ''price'') (cell_of r ''living_area'')"

definition ratio_ok :: "dataframe \<Rightarrow> row \<Rightarrow> bool" where
  "ratio_ok df r = between_value 500 15000 (price_per_sqm df r)"

definition clean_price_row :: "unicode \<Rightarrow> row \<Rightarrow> row" where
  "clean_price_row U r =
     AList.delete ''raw_price''
       (AList.update ''price'' (extract_price U (cell_of r ''raw_price'')) r)"

definition labels :: "dataframe \<Rightarrow> nat list" where
  "labels df = map fst (rows df)"

section \<open>Example record sets\<close>

definition offer_columns :: "string list" where
  "offer_columns = [''id'', ''price'', ''living_area'', ''property_type'', ''scraping_date'']"

definition offer_dtypes :: "(string \<times> dtype) list" where
  "offer_dtypes = [(''id'', Object), (''price'', Int64), (''living_area'', Int64),
                   (''property_type'', Object), (''scraping_date'', Object)]"

definition offer_1 :: row where
  "offer_1 = [(''id'', CStr (py ''1'')), (''price'', CInt 200000), (''living_area'', CInt 100),
              (''property_type'', CStr (py ''apartment'')),
              (''scraping_date'', CStr (py ''2023-01-01''))]"

definition offer_2 :: row where
  "offer_2 = [(''id'', CStr (py ''2'')), (''price'', CInt 50), (''living_area'', CInt 100),
              (''property_type'', CStr (py ''castle'')),
              (''scraping_date'', CStr (py ''bad-date''))]"

text \<open>The two offers of the scenario of the specification, as loaded.\<close>

definition scenario :: state where
  "scenario = \<lparr> data = \<lparr> columns = offer_columns, dtypes = offer_dtypes,
                           rows = [(0, offer_1), (1, offer_2)] \<rparr>,
                 log_lines = [] \<rparr>"

definition scenario_cleaned :: state where
  "scenario_cleaned = \<lparr> data = \<lparr> columns = offer_columns, dtypes = offer_dtypes,
                                   rows = [(0, offer_1)] \<rparr>,
                         log_lines = [''raw_price column missing.''] \<rparr>"

text \<open>
  An offer at the lower bound of the price per area. The living area is the float64
  nearest to \<open>75.84\<close>, which is a little more than \<open>75.84\<close>; the quotient of \<open>37920\<close> by
  it is a little less than \<open>500\<close> and rounds to \<open>500\<close>.
\<close>

definition boundary_offer :: row where
  "boundary_offer =
     [(''id'', CStr (py ''7'')), (''price'', CInt 37920),
      (''living_area'', CFloat (Fin (2668382779217019 / 35184372088832))),
      (''property_type'', CStr (py ''apartment'')),
      (''scraping_date'', CStr (py ''2023-10-26''))]"

definition boundary_dtypes :: "(string \<times> dtype) list" where
  "boundary_dtypes = [(''id'', Object), (''price'', Int64), (''living_area'', Float64),
                      (''property_type'', Object), (''scraping_date'', Object)]"

definition boundary :: state where
  "boundary = \<lparr> data = \<lparr> columns = offer_columns, dtypes = boundary_dtypes,
                           rows = [(0, boundary_offer)] \<rparr>,
                 log_lines = [] \<rparr>"

definition boundary_cleaned :: state where
  "boundary_cleaned = \<lparr> data = \<lparr> columns = offer_columns, dtypes = boundary_dtypes,
                                   rows = [(0, boundary_offer)] \<rparr>,
                         log_lines = [''raw_price column missing.''] \<rparr>"

text \<open>
  Four offers with a \<^verbatim>\<open>raw_price\<close> column. The first raw price begins with the euro
  sign (code point 8364). The third offer has no living area.
\<close>

definition raw_columns :: "string list" where
  "raw_columns = [''id'', ''raw_price'', ''living_area'', ''property_type'', ''scraping_date'']"

definition raw_dtypes :: "(string \<times> dtype) list" where
  "raw_dtypes = [(''id'', Object), (''raw_price'', Object), (''living_area'', Float64),
                 (''property_type'', Object), (''scraping_date'', Object)]"

definition raw_offer :: "string \<Rightarrow> pystr \<Rightarrow> cell \<Rightarrow> string \<Rightarrow> row" where
  "raw_offer ident raw area kind =
     [(''id'', CStr (py ident)), (''raw_price'', CStr raw), (''living_area'', area),
      (''property_type'', CStr (py kind)), (''scraping_date'', CStr (py ''2023-10-26''))]"

definition raw_listing :: state where
  "raw_listing =
     \<lparr> data = \<lparr> columns = raw_columns, dtypes = raw_dtypes,
                rows = [(0, raw_offer ''10'' (8364 # py '' 1234.50 per month'') (CFloat (Fin 50))
                              ''apartment''),
                        (1, raw_offer ''11'' (py ''price on request'') (CFloat (Fin 80)) ''house''),
                        (2, raw_offer ''12'' (py ''250000 EUR'') (CFloat NaN) ''house''),
                        (3, raw_offer ''13'' (py ''CHF 480000.'') (CFloat (Fin 120)) ''house'')] \<rparr>,
       log_lines = [] \<rparr>"

definition cleaned_offer :: "string \<Rightarrow> cell \<Rightarrow> cell \<Rightarrow> string \<Rightarrow> row" where
  "cleaned_offer ident area price kind =
     [(''id'', CStr (py ident)), (''living_area'', area),
      (''property_type'', CStr (py kind)), (''scraping_date'', CStr (py ''2023-10-26'')),
      (''price'', price)]"

definition cleaned_columns :: "string list" where
  "cleaned_columns = [''id'', ''living_area'', ''property_type'', ''scraping_date'', ''price'']"

definition cleaned_dtypes :: "(string \<times> dtype) list" where
  "cleaned_dtypes = [(''id'', Object), (''living_area'', Float64), (''property_type'', Object),
                     (''scraping_date'', Object), (''price'', Float64)]"

definition raw_listing_priced :: state where
  "raw_listing_priced =
     \<lparr> data = \<lparr> columns = cleaned_columns, dtypes = cleaned_dtypes,
                rows = [(0, cleaned_offer ''10'' (CFloat (Fin 50)) (CFloat (Fin (2469 / 2)))
                              ''apartment''),
                        (1, cleaned_offer ''11'' (CFloat (Fin 80)) (CFloat NaN) ''house''),
                        (2, cleaned_offer ''12'' (CFloat NaN) (CFloat (Fin 250000)) ''house''),
                        (3, cleaned_offer ''13'' (CFloat (Fin 120)) (CFloat (Fin 480000))
                              ''house'')] \<rparr>,
       log_lines = [''Invalid or null prices found. Indices: 0, 1, 2, 3''] \<rparr>"

definition raw_listing_cleaned :: state where
  "raw_listing_cleaned =
     \<lparr> data = \<lparr> columns = cleaned_columns, dtypes = cleaned_dtypes,
                rows = [(3, cleaned_offer ''13'' (CFloat (Fin 120)) (CFloat (Fin 480000))
                              ''house'')] \<rparr>,
       log_lines = [''Invalid or null prices found. Indices: 0, 1, 2, 3'',
                    ''Invalid living_area values. Indices: 0, 1, 2, 3''] \<rparr>"

text \<open>A record set without one of its columns.\<close>

definition without_column :: "string \<Rightarrow> state \<Rightarrow> state" where
  "without_column c s = s\<lparr>data := drop_column (data s) c\<rparr>"

section \<open>The pattern of the price extraction, read as a specification\<close>

text \<open>
  The strings that \<^verbatim>\<open>\d+\.?\d*\<close> matches as a whole: a non-empty run of digits,
  possibly followed by a full stop and a run of digits.
\<close>

definition price_pattern :: "unicode \<Rightarrow> pystr \<Rightarrow> bool" where
  "price_pattern U m \<longleftrightarrow>
     (\<exists>a b. a \<noteq> [] \<and> list_all (is_digit U) a \<and> list_all (is_digit U) b \<and>
            (m = a \<or> m = a @ 46 # b))"

text \<open>
  \<open>m\<close> is the first substring of \<open>x\<close> that matches: it occurs in \<open>x\<close>, it matches, no
  matching substring starts further left, and none that starts at the same place is
  longer.
\<close>

definition first_price_match :: "unicode \<Rightarrow> pystr \<Rightarrow> pystr \<Rightarrow> bool" where
  "first_price_match U x m \<longleftrightarrow>
     (\<exists>pre post. x = pre @ m @ post \<and> price_pattern U m \<and>
        (\<forall>pre' m' post'. x = pre' @ m' @ post' \<and> price_pattern U m' \<longrightarrow>
           length pre \<le> length pre' \<and> (length pre' = length pre \<longrightarrow> length m' \<le> length m)))"

text \<open>The line \<^verbatim>\<open>log_errors\<close> formats: the message and the labels, separated by commas.\<close>

definition log_line :: "string \<Rightarrow> nat list \<Rightarrow> string" where
  "log_line message ids = message @ '' Indices: '' @ join '', '' (map str_nat ids)"

section \<open>Basic facts about the operations\<close>

lemma ebind_Inr_iff: "ebind m f = Inr y \<longleftrightarrow> (\<exists>x. m = Inr x \<and> f x = Inr y)"
  by (cases m) (auto simp: ebind_def)

lemma lift_Inr_iff: "lift m lg = Inr x \<longleftrightarrow> m = Inr x"
  by (cases m) (auto simp: lift_def)

lemma getitem_Inr_iff:
  "getitem df c = Inr ser \<longleftrightarrow>
     c \<in> set (columns df) \<and> ser = map (\<lambda>(i, r). (i, cell_of r c)) (rows df)"
  by (auto simp: getitem_def)

lemma as_numeric_Inr_iff:
  "as_numeric ser = Inr fs \<longleftrightarrow>
     \<not> list_ex (\<lambda>(i, c). is_str c) ser \<and> fs = map_series cell_value ser"
  by (auto simp: as_numeric_def)

lemma filter_zip_rows:
  "map fst (filter (\<lambda>(x, (j, b)). b) (zip xs (map (\<lambda>(i, r). (i, P r)) xs))) =
     filter (\<lambda>(i, r). P r) xs"
  by (induction xs) auto

lemma select_rows_pred:
  "select_rows df (map (\<lambda>(i, r). (i, P r)) (rows df)) =
     \<lparr> columns = columns df, dtypes = dtypes df,
       rows = filter (\<lambda>(i, r). P r) (rows df) \<rparr>"
  by (simp add: select_rows_def filter_zip_rows)

lemma setitem_rows:
  "map (\<lambda>((i, r), (j, v)). (i, AList.update c v r)) (zip xs (map (\<lambda>(i, r). (i, f r)) xs)) =
     map (\<lambda>(i, r). (i, AList.update c (f r) r)) xs"
  by (induction xs) auto

section \<open>The division of two columns, row by row\<close>

lemma zip_with_rows:
  "zip_with f (map (\<lambda>(i, r). (i, g r)) xs) (map (\<lambda>(i, r). (i, h r)) xs) =
     map (\<lambda>(i, r). (i, f (g r) (h r))) xs"
  by (induction xs) (auto simp: zip_with_def)

lemma collect_Inr: "collect ys = Inr qs \<Longrightarrow> ys = map_series Inr qs"
  by (induction ys arbitrary: qs rule: collect.induct)
    (auto simp: map_series_def split: sum.splits)

lemma map_series_projr: "map_series projr (map_series Inr qs) = qs"
  by (induction qs) (auto simp: map_series_def)

lemma collect_rows:
  assumes "collect (map (\<lambda>(i, r). (i, f r)) xs) = Inr qs"
  shows "qs = map (\<lambda>(i, r). (i, projr (f r))) xs"
    and "(i, r) \<in> set xs \<Longrightarrow> f r = Inr (projr (f r))"
proof -
  note e = collect_Inr [OF assms]
  have "map_series projr (map (\<lambda>(i, r). (i, f r)) xs) = qs"
    unfolding e by (rule map_series_projr)
  then show "qs = map (\<lambda>(i, r). (i, projr (f r))) xs"
    by (auto simp: map_series_def case_prod_beta comp_def)
  assume "(i, r) \<in> set xs"
  then have "(i, f r) \<in> set (map (\<lambda>(i, r). (i, f r)) xs)" by force
  then have "(i, f r) \<in> set (map_series Inr qs)" using e by simp
  then show "f r = Inr (projr (f r))" by (auto simp: map_series_def)
qed

lemma truediv_nan: "is_nan x \<or> is_nan y \<Longrightarrow> truediv x y = NaN"
  by (auto simp: truediv_def)

lemma py_float_nan: "py_float c = Inr x \<Longrightarrow> isnull c \<Longrightarrow> is_nan x"
  by (cases c) (auto simp: Let_def split: if_splits)

lemma py_truediv_masked:
  assumes "py_truediv p a = Inr q"
  shows "masked_truediv p a = Inr q"
proof (cases "isnull p \<or> isnull a")
  case False
  then show ?thesis using assms by (simp add: masked_truediv_def)
next
  case True
  then have n: "\<not> (\<exists>x y. p = CInt x \<and> a = CInt y)" by auto
  have "py_truediv p a =
     (if \<not> is_number p \<or> \<not> is_number a then Inl TypeError
      else (case py_float p of
              Inl e \<Rightarrow> Inl e
            | Inr x \<Rightarrow>
                (case py_float a of
                   Inl e \<Rightarrow> Inl e
                 | Inr y \<Rightarrow> if is_zero y then Inl ZeroDivisionError else Inr (truediv x y))))"
    using n by (cases p; cases a; hypsubst; simp)
  with assms obtain x y where
    x: "py_float p = Inr x" and y: "py_float a = Inr y" and q: "q = truediv x y"
    by (auto split: if_splits sum.splits)
  from True py_float_nan [OF x] py_float_nan [OF y] have "is_nan x \<or> is_nan y" by blast
  then have "q = NaN" unfolding q by (rule truediv_nan)
  with True show ?thesis by (simp add: masked_truediv_def)
qed

lemma series_truediv_rows:
  assumes "series_truediv dp (map (\<lambda>(i, r). (i, g r)) xs) da (map (\<lambda>(i, r). (i, h r)) xs)
             = Inr qs"
  shows "qs = map (\<lambda>(i, r). (i, quotient dp da (g r) (h r))) xs"
proof (cases "dp \<noteq> Object \<and> da \<noteq> Object")
  case True
  with assms show ?thesis by (auto simp: series_truediv_def zip_with_rows quotient_def)
next
  case False
  then have q: "\<And>r. quotient dp da (g r) (h r) =
      (case masked_truediv (g r) (h r) of Inl e \<Rightarrow> NaN | Inr q \<Rightarrow> q)"
    by (auto simp: quotient_def)
  let ?full = "map (\<lambda>(i, r). (i, py_truediv (g r) (h r))) xs"
  let ?masked = "map (\<lambda>(i, r). (i, masked_truediv (g r) (h r))) xs"
  from assms False have c: "collect ?full = Inr qs \<or> collect ?masked = Inr qs"
    by (auto simp: series_truediv_def zip_with_rows split: sum.splits exn.splits)
  then show ?thesis
  proof
    assume m: "collect ?masked = Inr qs"
    have "projr (masked_truediv (g r) (h r)) = quotient dp da (g r) (h r)"
      if "(i, r) \<in> set xs" for i r
      using collect_rows(2) [OF m that] unfolding q
      by (cases "masked_truediv (g r) (h r)") auto
    then have "map (\<lambda>(i, r). (i, projr (masked_truediv (g r) (h r)))) xs =
        map (\<lambda>(i, r). (i, quotient dp da (g r) (h r))) xs"
      by (intro map_cong [OF refl]) auto
    with collect_rows(1) [OF m] show ?thesis by simp
  next
    assume f: "collect ?full = Inr qs"
    have "projr (py_truediv (g r) (h r)) = quotient dp da (g r) (h r)"
      if "(i, r) \<in> set xs" for i r
    proof -
      from collect_rows(2) [OF f that]
      have e: "py_truediv (g r) (h r) = Inr (projr (py_truediv (g r) (h r)))" .
      from py_truediv_masked [OF e] show ?thesis unfolding q by simp
    qed
    then have "map (\<lambda>(i, r). (i, projr (py_truediv (g r) (h r)))) xs =
        map (\<lambda>(i, r). (i, quotient dp da (g r) (h r))) xs"
      by (intro map_cong [OF refl]) auto
    with collect_rows(1) [OF f] show ?thesis by simp
  qed
qed

section \<open>What each stage does to the record set\<close>

lemma validate_id_column_data:
  "validate_id_column U s = Inr s' \<Longrightarrow> data s' = data s"
  by (auto simp: validate_id_column_def ebind_Inr_iff lift_Inr_iff Let_def)

lemma validate_property_type_data:
  "validate_property_type s = Inr s' \<Longrightarrow> data s' = data s"
  by (auto simp: validate_property_type_def ebind_Inr_iff lift_Inr_iff Let_def)

lemma validate_scraping_date_data:
  "validate_scraping_date U s = Inr s' \<Longrightarrow> data s' = data s"
  by (auto simp: validate_scraping_date_def ebind_Inr_iff lift_Inr_iff Let_def)

lemma validate_living_area_data:
  assumes "validate_living_area s = Inr s'"
  shows "data s' = \<lparr> columns = columns (data s), dtypes = dtypes (data s),
                      rows = filter (\<lambda>(i, r). area_ok r) (rows (data s)) \<rparr>"
proof -
  from assms obtain area a where
    g: "getitem (data s) ''living_area'' = Inr area" and n: "as_numeric area = Inr a"
    and s': "data s' = select_rows (data s) (invert (invert (between a 10 500)))"
    by (auto simp: validate_living_area_def ebind_Inr_iff lift_Inr_iff Let_def)
  have "invert (invert (between a 10 500)) = map (\<lambda>(i, r). (i, area_ok r)) (rows (data s))"
    using g n
    by (auto simp: getitem_Inr_iff as_numeric_Inr_iff invert_def between_def map_series_def
        area_ok_def)
  then show ?thesis using s' by (simp add: select_rows_pred)
qed

lemma filter_by_price_per_sqm_data:
  assumes "filter_by_price_per_sqm s = Inr s'"
  shows "data s' = \<lparr> columns = columns (data s), dtypes = dtypes (data s),
                      rows = filter (\<lambda>(i, r). ratio_ok (data s) r) (rows (data s)) \<rparr>"
proof -
  from assms obtain price area ratio where
    g1: "getitem (data s) ''price'' = Inr price"
    and g2: "getitem (data s) ''living_area'' = Inr area"
    and d: "series_truediv (dtype_of (data s) ''price'') price
              (dtype_of (data s) ''living_area'') area = Inr ratio"
    and s': "data s' = select_rows (data s) (between ratio 500 15000)"
    by (auto simp: filter_by_price_per_sqm_def ebind_Inr_iff lift_Inr_iff Let_def)
  from g1 g2 have
    "price = map (\<lambda>(i, r). (i, cell_of r ''price'')) (rows (data s))"
    "area = map (\<lambda>(i, r). (i, cell_of r ''living_area'')) (rows (data s))"
    by (simp_all add: getitem_Inr_iff)
  with d have "ratio = map (\<lambda>(i, r). (i, price_per_sqm (data s) r)) (rows (data s))"
    unfolding price_per_sqm_def by (simp add: series_truediv_rows)
  then have "between ratio 500 15000 =
      map (\<lambda>(i, r). (i, ratio_ok (data s) r)) (rows (data s))"
    by (simp add: between_def map_series_def ratio_ok_def case_prod_beta comp_def)
  then show ?thesis using s' by (simp add: select_rows_pred)
qed

lemma validate_clean_price_data:
  assumes "validate_clean_price U s = Inr s'"
  shows "data s' =
     (if ''raw_price'' \<in> set (columns (data s))
      then \<lparr> columns = filter (\<lambda>d. d \<noteq> ''raw_price'')
                         (if ''price'' \<in> set (columns (data s)) then columns (data s)
                          else columns (data s) @ [''price'']),
             dtypes = AList.delete ''raw_price''
                        (AList.update ''price'' Float64 (dtypes (data s))),
             rows = map (\<lambda>(i, r). (i, clean_price_row U r)) (rows (data s)) \<rparr>
      else data s)"
proof (cases "''raw_price'' \<in> set (columns (data s))")
  case False
  with assms show ?thesis by (auto simp: validate_clean_price_def)
next
  case True
  with assms obtain raw strs where
    g: "getitem (data s) ''raw_price'' = Inr raw"
    and a: "str_accessor (dtype_of (data s) ''raw_price'') raw = Inr strs"
    and s': "data s' = drop_column
               (setitem (data s) ''price'' Float64 (map_series (extract_price U) strs))
               ''raw_price''"
    by (auto simp: validate_clean_price_def ebind_Inr_iff lift_Inr_iff Let_def)
  from a have "strs = raw" by (auto simp: str_accessor_def split: if_splits)
  with g have "map_series (extract_price U) strs =
      map (\<lambda>(i, r). (i, extract_price U (cell_of r ''raw_price''))) (rows (data s))"
    by (auto simp: getitem_Inr_iff map_series_def)
  then show ?thesis using s' True
    by (simp add: setitem_def setitem_rows drop_column_def clean_price_row_def case_prod_beta)
qed

lemma validate_and_clean_stages:
  "validate_and_clean U s = Inr s' \<longleftrightarrow>
     (\<exists>s1 s2 s3 s4 s5.
        validate_id_column U s = Inr s1 \<and> validate_clean_price U s1 = Inr s2 \<and>
        validate_living_area s2 = Inr s3 \<and> filter_by_price_per_sqm s3 = Inr s4 \<and>
        validate_property_type s4 = Inr s5 \<and> validate_scraping_date U s5 = Inr s')"
  by (simp add: validate_and_clean_def ebind_Inr_iff)

lemma ratio_ok_dtypes: "dtypes df = dtypes df' \<Longrightarrow> ratio_ok df = ratio_ok df'"
  by (rule ext) (simp add: ratio_ok_def price_per_sqm_def dtype_of_def)

lemma validate_and_clean_rows:
  assumes "validate_and_clean U s = Inr s'"
  shows "\<exists>s1 s2. validate_id_column U s = Inr s1 \<and> validate_clean_price U s1 = Inr s2 \<and>
           dtypes (data s') = dtypes (data s2) \<and>
           rows (data s') =
             filter (\<lambda>(i, r). ratio_ok (data s') r)
               (filter (\<lambda>(i, r). area_ok r) (rows (data s2)))"
proof -
  from assms obtain s1 s2 s3 s4 s5 where
    st: "validate_id_column U s = Inr s1" "validate_clean_price U s1 = Inr s2"
        "validate_living_area s2 = Inr s3" "filter_by_price_per_sqm s3 = Inr s4"
        "validate_property_type s4 = Inr s5" "validate_scraping_date U s5 = Inr s'"
    unfolding validate_and_clean_stages by blast
  have d4: "data s' = data s4"
    using validate_scraping_date_data [OF st(6)] validate_property_type_data [OF st(5)] by simp
  have t3: "dtypes (data s3) = dtypes (data s2)"
    using validate_living_area_data [OF st(3)] by simp
  have t4: "dtypes (data s4) = dtypes (data s3)"
    using filter_by_price_per_sqm_data [OF st(4)] by simp
  have t: "dtypes (data s') = dtypes (data s2)" using d4 t3 t4 by simp
  have k: "ratio_ok (data s3) = ratio_ok (data s')"
    by (rule ratio_ok_dtypes) (simp add: t t3)
  have "rows (data s') = rows (data s4)" using d4 by simp
  also have "\<dots> = filter (\<lambda>(i, r). ratio_ok (data s3) r) (rows (data s3))"
    using filter_by_price_per_sqm_data [OF st(4)] by simp
  also have "rows (data s3) = filter (\<lambda>(i, r). area_ok r) (rows (data s2))"
    using validate_living_area_data [OF st(3)] by simp
  finally show ?thesis using st(1,2) t unfolding k by blast
qed

lemma between_value_Fin:
  "0 < l \<Longrightarrow> between_value l u x \<longleftrightarrow> (\<exists>q. x = Fin q \<and> l \<le> q \<and> q \<le> u)"
  by (cases x) auto


lemma ratio_ok_range:
  "ratio_ok df r \<Longrightarrow> \<exists>q. price_per_sqm df r = Fin q \<and> 500 \<le> q \<and> q \<le> 15000"
  by (simp add: ratio_ok_def between_value_Fin)

lemma to_float_nan: "isnull c \<Longrightarrow> is_nan (to_float c)"
  by (cases c) auto

lemma quotient_null: "isnull p \<or> isnull a \<Longrightarrow> quotient dp da p a = NaN"
  by (auto simp: quotient_def masked_truediv_def truediv_nan to_float_nan)

lemma ratio_ok_not_null:
  assumes "ratio_ok df r"
  shows "\<not> isnull (cell_of r ''price'')" and "\<not> isnull (cell_of r ''living_area'')"
proof -
  from ratio_ok_range [OF assms] have "price_per_sqm df r \<noteq> NaN" by auto
  then have "\<not> (isnull (cell_of r ''price'') \<or> isnull (cell_of r ''living_area''))"
    unfolding price_per_sqm_def using quotient_null by blast
  then show "\<not> isnull (cell_of r ''price'')" and "\<not> isnull (cell_of r ''living_area'')"
    by simp_all
qed

lemma stage_needs_column:
  "validate_id_column U s = Inr s' \<Longrightarrow> ''id'' \<in> set (columns (data s))"
  "validate_living_area s = Inr s' \<Longrightarrow> ''living_area'' \<in> set (columns (data s))"
  "filter_by_price_per_sqm s = Inr s' \<Longrightarrow>
     ''price'' \<in> set (columns (data s)) \<and> ''living_area'' \<in> set (columns (data s))"
  "validate_property_type s = Inr s' \<Longrightarrow> ''property_type'' \<in> set (columns (data s))"
  "validate_scraping_date U s = Inr s' \<Longrightarrow> ''scraping_date'' \<in> set (columns (data s))"
  by (auto simp: validate_id_column_def validate_living_area_def filter_by_price_per_sqm_def
      validate_property_type_def validate_scraping_date_def ebind_Inr_iff lift_Inr_iff
      getitem_Inr_iff Let_def)

lemma validate_clean_price_columns:
  assumes "validate_clean_price U s = Inr s'"
  shows "c \<in> set (columns (data s')) \<longleftrightarrow>
     (if ''raw_price'' \<in> set (columns (data s))
      then c \<noteq> ''raw_price'' \<and> (c = ''price'' \<or> c \<in> set (columns (data s)))
      else c \<in> set (columns (data s)))"
  using validate_clean_price_data [OF assms] by auto

lemma validate_and_clean_needs_columns:
  assumes "validate_and_clean U s = Inr s'"
  shows "''id'' \<in> set (columns (data s))" "''living_area'' \<in> set (columns (data s))"
    "''property_type'' \<in> set (columns (data s))" "''scraping_date'' \<in> set (columns (data s))"
    "''price'' \<in> set (columns (data s)) \<or> ''raw_price'' \<in> set (columns (data s))"
proof -
  from assms obtain s1 s2 s3 s4 s5 where
    st: "validate_id_column U s = Inr s1" "validate_clean_price U s1 = Inr s2"
        "validate_living_area s2 = Inr s3" "filter_by_price_per_sqm s3 = Inr s4"
        "validate_property_type s4 = Inr s5" "validate_scraping_date U s5 = Inr s'"
    unfolding validate_and_clean_stages by blast
  have c1: "columns (data s1) = columns (data s)"
    using validate_id_column_data [OF st(1)] by simp
  have c3: "columns (data s3) = columns (data s2)"
    using validate_living_area_data [OF st(3)] by simp
  have c4: "columns (data s4) = columns (data s2)"
    using filter_by_price_per_sqm_data [OF st(4)] c3 by simp
  have c5: "columns (data s5) = columns (data s2)"
    using validate_property_type_data [OF st(5)] c4 by simp
  note cp = validate_clean_price_columns [OF st(2), unfolded c1]
  show "''id'' \<in> set (columns (data s))" using stage_needs_column(1) [OF st(1)] .
  show "''living_area'' \<in> set (columns (data s))"
    using stage_needs_column(2) [OF st(3)] cp [of "''living_area''"] by (auto split: if_splits)
  show "''property_type'' \<in> set (columns (data s))"
    using stage_needs_column(4) [OF st(5)] c4 cp [of "''property_type''"] by (auto split: if_splits)
  show "''scraping_date'' \<in> set (columns (data s))"
    using stage_needs_column(5) [OF st(6)] c5 cp [of "''scraping_date''"] by (auto split: if_splits)
  show "''price'' \<in> set (columns (data s)) \<or> ''raw_price'' \<in> set (columns (data s))"
    using stage_needs_column(3) [OF st(4)] c3 cp [of "''price''"] by (auto split: if_splits)
qed

lemma not_Inr_isl: "(\<And>y. x \<noteq> Inr y) \<Longrightarrow> isl x"
  by (cases x) auto

lemma subseq_filter_filter: "subseq (filter P (filter Q xs)) xs"
  by (rule subseq_order.trans [OF subseq_filter_left subseq_filter_left])

lemma log_only_stage_returns:
  "''id'' \<in> set (columns (data s)) \<Longrightarrow> \<not> isl (validate_id_column U s)"
  "''property_type'' \<in> set (columns (data s)) \<Longrightarrow> \<not> isl (validate_property_type s)"
  "''scraping_date'' \<in> set (columns (data s)) \<Longrightarrow> \<not> isl (validate_scraping_date U s)"
  by (simp_all add: validate_id_column_def validate_property_type_def
      validate_scraping_date_def ebind_def lift_def getitem_def Let_def)

lemma labels_map_row: "map fst (map (\<lambda>(i, r). (i, f r)) xs) = map fst xs"
  by (induction xs) auto

section \<open>Evaluation\<close>

lemma floor_rat_numeral:
  "\<lfloor>(numeral a :: rat) / numeral b\<rfloor> = numeral a div numeral b"
  "\<lfloor>(1 :: rat) / numeral b\<rfloor> = 1 div numeral b"
  using floor_divide_of_int_eq [of "numeral a" "numeral b", where ?'a = rat]
    floor_divide_of_int_eq [of 1 "numeral b", where ?'a = rat]
  by simp_all

lemma ceiling_rat_numeral:
  "\<lceil>(numeral a :: rat) / numeral b\<rceil> = - (- numeral a div numeral b)"
  "\<lceil>(1 :: rat) / numeral b\<rceil> = - (- 1 div numeral b)"
  using ceiling_divide_eq_div [of "numeral a" "numeral b", where ?'a = rat]
    ceiling_divide_eq_div [of 1 "numeral b", where ?'a = rat]
  by simp_all

lemma bit_length_numeral:
  "bit_length 0 = 0"
  "bit_length (Suc 0) = 1"
  "bit_length (numeral k) = Suc (bit_length (numeral k div 2))"
  by (simp_all add: bit_length.simps [of 0] bit_length.simps [of "Suc 0"]
      bit_length.simps [of "numeral k"])

text \<open>The definitions the evaluation of a float operation unfolds.\<close>

lemmas float_defs =
  truediv_def round64_def round64_pos_def round_half_even_def exponent_def pow2_def
  bit_length_numeral signed_inf_def signed_zero_def Let_def floor_rat_numeral
  ceiling_rat_numeral

text \<open>The definitions a run of the processor on a given record set unfolds.\<close>

lemmas run_defs =
  validate_and_clean_def validate_id_column_def validate_clean_price_def
  validate_living_area_def filter_by_price_per_sqm_def validate_property_type_def
  validate_scraping_date_def ebind_def lift_def getitem_def setitem_def drop_column_def
  select_rows_def as_numeric_def str_accessor_def log_errors_def map_series_def invert_def
  between_def series_truediv_def zip_with_def masked_truediv_def dtype_of_def cell_of_def
  py_def ascii_def str_isnumeric_def isin_def VALID_PROPERTY_TYPES_def match_date_def
  is_digit_def match_price_def float_of_match_def decimal_value_def digits_value_def
  str_nat.simps str_int_def float_defs log_line_def

lemmas example_defs =
  scenario_def scenario_cleaned_def offer_columns_def offer_dtypes_def offer_1_def offer_2_def
  boundary_def boundary_cleaned_def boundary_offer_def boundary_dtypes_def
  raw_listing_def raw_listing_priced_def raw_listing_cleaned_def raw_columns_def raw_dtypes_def
  raw_offer_def cleaned_offer_def cleaned_columns_def cleaned_dtypes_def without_column_def

section \<open>The price pattern\<close>

lemma price_pattern_digit: "price_pattern U m \<Longrightarrow> m \<noteq> [] \<and> is_digit U (hd m)"
  by (auto simp: price_pattern_def neq_Nil_conv)

lemma takeWhile_all_prefix:
  "list_all P p \<Longrightarrow> takeWhile P (p @ q) = p @ takeWhile P q"
  by (induction p) auto

lemma dropWhile_all_prefix:
  "list_all P p \<Longrightarrow> dropWhile P (p @ q) = dropWhile P q"
  by (induction p) auto

lemma match_price_pattern:
  assumes "match_price U y = Some m"
  shows "price_pattern U m" and "\<exists>post. y = m @ post"
proof -
  let ?a = "takeWhile (is_digit U) y" and ?r = "dropWhile (is_digit U) y"
  have y: "y = ?a @ ?r" by simp
  have a: "?a \<noteq> []" "list_all (is_digit U) ?a"
    using assms by (auto simp: match_price_def Let_def list_all_iff dest: set_takeWhileD split: if_splits)
  show "price_pattern U m"
  proof (cases ?r)
    case Nil
    with assms a have "m = ?a" by (simp add: match_price_def Let_def)
    with a show ?thesis unfolding price_pattern_def by blast
  next
    case (Cons c r')
    show ?thesis
    proof (cases "c = 46")
      case True
      with assms a Cons have "m = ?a @ 46 # takeWhile (is_digit U) r'"
        by (simp add: match_price_def Let_def)
      moreover have "list_all (is_digit U) (takeWhile (is_digit U) r')"
        by (auto simp: list_all_iff dest: set_takeWhileD)
      ultimately show ?thesis using a unfolding price_pattern_def by blast
    next
      case False
      with assms a Cons have "m = ?a" by (simp add: match_price_def Let_def)
      with a show ?thesis unfolding price_pattern_def by blast
    qed
  qed
  show "\<exists>post. y = m @ post"
  proof (cases ?r)
    case Nil
    with assms a have "m = ?a" by (simp add: match_price_def Let_def)
    with y show ?thesis by metis
  next
    case (Cons c r')
    show ?thesis
    proof (cases "c = 46")
      case True
      with assms a Cons have m: "m = ?a @ 46 # takeWhile (is_digit U) r'"
        by (simp add: match_price_def Let_def)
      have "y = ?a @ 46 # (takeWhile (is_digit U) r' @ dropWhile (is_digit U) r')"
        using y Cons True by simp
      then have "y = m @ dropWhile (is_digit U) r'" using m by simp
      then show ?thesis by blast
    next
      case False
      with assms a Cons have "m = ?a" by (simp add: match_price_def Let_def)
      with y show ?thesis by metis
    qed
  qed
qed

lemma match_price_longest:
  assumes "match_price U y = Some m" and "y = m' @ post'" and "price_pattern U m'"
  shows "length m' \<le> length m"
proof -
  let ?a = "takeWhile (is_digit U) y" and ?r = "dropWhile (is_digit U) y"
  from assms(3) obtain a b where
    ab: "a \<noteq> []" "list_all (is_digit U) a" "list_all (is_digit U) b" "m' = a \<or> m' = a @ 46 # b"
    unfolding price_pattern_def by blast
  have am: "length ?a \<le> length m"
    using assms(1) by (auto simp: match_price_def Let_def split: if_splits list.splits)
  show ?thesis
  proof (cases "list_all (is_digit U) m'")
    case True
    then have "?a = m' @ takeWhile (is_digit U) post'"
      unfolding assms(2) by (rule takeWhile_all_prefix)
    then have "length m' \<le> length ?a" by simp
    with am show ?thesis by simp
  next
    case False
    with ab have m': "m' = a @ 46 # b" and dot: "\<not> is_digit U 46" by auto
    have ya: "y = a @ (46 # b @ post')" using assms(2) m' by simp
    have ta: "?a = a" unfolding ya using ab(2) dot by (simp add: takeWhile_all_prefix)
    have tr: "?r = 46 # b @ post'" unfolding ya using ab(2) dot by (simp add: dropWhile_all_prefix)
    have "m = a @ 46 # takeWhile (is_digit U) (b @ post')"
      using assms(1) ta tr ab(1) by (simp add: match_price_def Let_def)
    then have "m = a @ 46 # b @ takeWhile (is_digit U) post'"
      using ab(3) by (simp add: takeWhile_all_prefix)
    then show ?thesis using m' by simp
  qed
qed

lemma match_price_None: "match_price U y = None \<longleftrightarrow> (y = [] \<or> \<not> is_digit U (hd y))"
  by (cases y) (auto simp: match_price_def Let_def split: list.splits)

lemma search_price_Some:
  "search_price U x = Some m \<Longrightarrow>
     \<exists>pre post. x = pre @ m @ post \<and> (\<forall>c \<in> set pre. \<not> is_digit U c) \<and>
                match_price U (m @ post) = Some m"
proof (induction x)
  case Nil
  then show ?case by simp
next
  case (Cons c cs)
  show ?case
  proof (cases "match_price U (c # cs)")
    case (Some m0)
    with Cons.prems have m: "m0 = m" by simp
    from match_price_pattern(2) [OF Some] m obtain post where "c # cs = m @ post" by blast
    with Some m have "c # cs = [] @ m @ post \<and> (\<forall>d \<in> set []. \<not> is_digit U d) \<and>
        match_price U (m @ post) = Some m" by simp
    then show ?thesis by blast
  next
    case None
    with Cons.prems have "search_price U cs = Some m" by simp
    from Cons.IH [OF this] obtain pre post where
      p: "cs = pre @ m @ post" "\<forall>d \<in> set pre. \<not> is_digit U d" "match_price U (m @ post) = Some m"
      by blast
    from None have "\<not> is_digit U c" by (simp add: match_price_None)
    with p have "c # cs = (c # pre) @ m @ post \<and> (\<forall>d \<in> set (c # pre). \<not> is_digit U d) \<and>
        match_price U (m @ post) = Some m" by simp
    then show ?thesis by blast
  qed
qed

lemma search_price_None: "search_price U x = None \<longleftrightarrow> (\<forall>c \<in> set x. \<not> is_digit U c)"
proof (induction x)
  case Nil
  then show ?case by simp
next
  case (Cons c cs)
  show ?case
  proof (cases "is_digit U c")
    case True
    then have "match_price U (c # cs) \<noteq> None" by (simp add: match_price_None)
    then obtain m where "match_price U (c # cs) = Some m" by blast
    with True show ?thesis by auto
  next
    case False
    then have "match_price U (c # cs) = None" by (simp add: match_price_None)
    with False Cons.IH show ?thesis by simp
  qed
qed

lemma no_digit_before_match:
  assumes "pre @ m @ post = pre' @ m' @ post'" and "\<forall>c \<in> set pre. \<not> is_digit U c"
    and "price_pattern U m'"
  shows "length pre \<le> length pre'"
proof (rule ccontr)
  assume "\<not> length pre \<le> length pre'"
  then have lt: "length pre' < length pre" by simp
  from price_pattern_digit [OF assms(3)] obtain d ds where m': "m' = d # ds" "is_digit U d"
    by (cases m') auto
  have "(pre @ m @ post) ! length pre' = pre ! length pre'"
    using lt by (simp add: nth_append)
  moreover have "(pre' @ m' @ post') ! length pre' = d"
    using m' by (simp add: nth_append)
  ultimately have "pre ! length pre' = d" using assms(1) by simp
  then have "d \<in> set pre" using lt by (metis nth_mem)
  with assms(2) m'(2) show False by blast
qed

lemma search_price_first_match:
  assumes "search_price U x = Some m"
  shows "first_price_match U x m"
proof -
  from search_price_Some [OF assms] obtain pre post where
    p: "x = pre @ m @ post" "\<forall>c \<in> set pre. \<not> is_digit U c"
       "match_price U (m @ post) = Some m"
    by blast
  have pat: "price_pattern U m" using match_price_pattern(1) [OF p(3)] .
  have "length pre \<le> length pre' \<and> (length pre' = length pre \<longrightarrow> length m' \<le> length m)"
    if h: "x = pre' @ m' @ post'" "price_pattern U m'" for pre' m' post'
  proof
    have e: "pre @ m @ post = pre' @ m' @ post'" using p(1) h(1) by simp
    show "length pre \<le> length pre'"
      by (rule no_digit_before_match [OF e p(2) h(2)])
    show "length pre' = length pre \<longrightarrow> length m' \<le> length m"
    proof
      assume "length pre' = length pre"
      with p(1) h(1) have "m @ post = m' @ post'" by (simp add: append_eq_append_conv)
      from match_price_longest [OF p(3) this h(2)] show "length m' \<le> length m" .
    qed
  qed
  with p(1) pat show ?thesis unfolding first_price_match_def by blast
qed

lemma first_price_match_unique:
  assumes "first_price_match U x m" and "first_price_match U x n"
  shows "m = n"
proof -
  from assms(1) obtain pre post where
    a: "x = pre @ m @ post" "price_pattern U m"
       "\<And>pre' m' post'. x = pre' @ m' @ post' \<Longrightarrow> price_pattern U m' \<Longrightarrow>
          length pre \<le> length pre' \<and> (length pre' = length pre \<longrightarrow> length m' \<le> length m)"
    unfolding first_price_match_def by blast
  from assms(2) obtain pre2 post2 where
    b: "x = pre2 @ n @ post2" "price_pattern U n"
       "\<And>pre' m' post'. x = pre' @ m' @ post' \<Longrightarrow> price_pattern U m' \<Longrightarrow>
          length pre2 \<le> length pre' \<and> (length pre' = length pre2 \<longrightarrow> length m' \<le> length n)"
    unfolding first_price_match_def by blast
  have l: "length pre = length pre2"
    using a(3) [OF b(1) b(2)] b(3) [OF a(1) a(2)] by simp
  then have "length n \<le> length m" "length m \<le> length n"
    using a(3) [OF b(1) b(2)] b(3) [OF a(1) a(2)] by simp_all
  then have "length m = length n" by simp
  moreover have "m @ post = n @ post2"
    using a(1) b(1) l by (simp add: append_eq_append_conv)
  ultimately show ?thesis by (simp add: append_eq_append_conv)
qed

lemma search_price_iff: "search_price U x = Some m \<longleftrightarrow> first_price_match U x m"
proof
  assume "search_price U x = Some m"
  then show "first_price_match U x m" by (rule search_price_first_match)
next
  assume f: "first_price_match U x m"
  then obtain pre post where "x = pre @ m @ post" "price_pattern U m"
    unfolding first_price_match_def by blast
  with price_pattern_digit [of U m] have "\<exists>c \<in> set x. is_digit U c"
    by (cases m) auto
  then have "search_price U x \<noteq> None" by (simp add: search_price_None)
  then obtain n where n: "search_price U x = Some n" by blast
  from first_price_match_unique [OF f search_price_first_match [OF n]] n
  show "search_price U x = Some m" by simp
qed

lemma search_price_None_iff:
  "search_price U x = None \<longleftrightarrow> \<not> (\<exists>pre m post. x = pre @ m @ post \<and> price_pattern U m)"
proof
  assume n: "search_price U x = None"
  show "\<not> (\<exists>pre m post. x = pre @ m @ post \<and> price_pattern U m)"
  proof
    assume "\<exists>pre m post. x = pre @ m @ post \<and> price_pattern U m"
    then obtain pre m post where h: "x = pre @ m @ post" "price_pattern U m" by blast
    with price_pattern_digit [of U m] have "\<exists>c \<in> set x. is_digit U c" by (cases m) auto
    with n show False by (simp add: search_price_None)
  qed
next
  assume h: "\<not> (\<exists>pre m post. x = pre @ m @ post \<and> price_pattern U m)"
  show "search_price U x = None"
  proof (rule ccontr)
    assume "search_price U x \<noteq> None"
    then obtain m where "search_price U x = Some m" by blast
    from search_price_first_match [OF this] h show False
      unfolding first_price_match_def by blast
  qed
qed

section \<open>What each stage writes to the log\<close>

lemma log_errors_line:
  "log_errors condition message lg =
     (if \<exists>(i, b) \<in> set condition. b then lg @ [log_line message (map fst condition)] else lg)"
proof -
  have a: "map (\<lambda>(i, b). str_nat i) condition = map str_nat (map fst condition)"
    by (simp add: case_prod_beta comp_def)
  have b: "list_ex snd condition \<longleftrightarrow> (\<exists>(i, b) \<in> set condition. b)"
    by (simp add: list_ex_iff case_prod_beta)
  show ?thesis by (simp only: log_errors_def log_line_def a b)
qed

lemma log_errors_rows:
  "log_errors (map (\<lambda>(i, r). (i, P r)) rs) message lg =
     (if \<exists>(i, r) \<in> set rs. P r then lg @ [log_line message (map fst rs)] else lg)"
proof -
  have a: "map fst (map (\<lambda>(i, r). (i, P r)) rs) = map fst rs" by (rule labels_map_row)
  have b: "(\<exists>(i, b) \<in> set (map (\<lambda>(i, r). (i, P r)) rs). b) \<longleftrightarrow>
      (\<exists>(i, r) \<in> set rs. P r)"
    by (simp add: case_prod_beta)
  show ?thesis by (simp only: log_errors_line a b)
qed

lemma clean_price_row_cells:
  "cell_of (clean_price_row U r) ''price'' = extract_price U (cell_of r ''raw_price'')"
  "map_of (clean_price_row U r) ''raw_price'' = None"
  "c \<noteq> ''price'' \<Longrightarrow> c \<noteq> ''raw_price'' \<Longrightarrow> cell_of (clean_price_row U r) c = cell_of r c"
  by (simp_all add: clean_price_row_def cell_of_def delete_conv update_conv)

lemma validate_clean_price_log:
  assumes "''raw_price'' \<in> set (columns (data s))" and "validate_clean_price U s = Inr s'"
  shows "log_lines s' =
     (if \<exists>(i, r) \<in> set (rows (data s)). isnull (extract_price U (cell_of r ''raw_price''))
      then log_lines s @ [log_line ''Invalid or null prices found.'' (labels (data s))]
      else log_lines s)"
proof -
  from assms obtain raw strs price where
    g: "getitem (data s) ''raw_price'' = Inr raw"
    and a: "str_accessor (dtype_of (data s) ''raw_price'') raw = Inr strs"
    and p: "getitem (setitem (data s) ''price'' Float64 (map_series (extract_price U) strs))
              ''price'' = Inr price"
    and l: "log_lines s' = log_errors (map_series isnull price)
              ''Invalid or null prices found.'' (log_lines s)"
    by (auto simp: validate_clean_price_def ebind_Inr_iff lift_Inr_iff Let_def)
  from a have "strs = raw" by (auto simp: str_accessor_def split: if_splits)
  with g have strs: "strs = map (\<lambda>(i, r). (i, cell_of r ''raw_price'')) (rows (data s))"
    by (simp add: getitem_Inr_iff)
  have ser: "map_series (extract_price U) strs =
      map (\<lambda>(i, r). (i, extract_price U (cell_of r ''raw_price''))) (rows (data s))"
    unfolding strs by (simp add: map_series_def case_prod_beta comp_def)
  have r1: "rows (setitem (data s) ''price'' Float64 (map_series (extract_price U) strs)) =
      map (\<lambda>(i, r). (i, AList.update ''price'' (extract_price U (cell_of r ''raw_price'')) r))
        (rows (data s))"
    unfolding ser by (simp add: setitem_def setitem_rows)
  have "price = map (\<lambda>(i, r). (i, cell_of r ''price''))
      (rows (setitem (data s) ''price'' Float64 (map_series (extract_price U) strs)))"
    using p by (simp add: getitem_Inr_iff)
  then have "price =
      map (\<lambda>(i, r). (i, extract_price U (cell_of r ''raw_price''))) (rows (data s))"
    unfolding r1 by (simp add: case_prod_beta comp_def cell_of_def update_conv)
  then have "map_series isnull price =
      map (\<lambda>(i, r). (i, isnull (extract_price U (cell_of r ''raw_price'')))) (rows (data s))"
    by (simp add: map_series_def case_prod_beta comp_def)
  then show ?thesis using l by (simp add: log_errors_rows labels_def)
qed

lemma validate_clean_price_returns:
  assumes "''raw_price'' \<in> set (columns (data s))"
    and "dtype_of (data s) ''raw_price'' = Object"
    and "\<forall>(i, r) \<in> set (rows (data s)).
           is_str (cell_of r ''raw_price'') \<or> isnull (cell_of r ''raw_price'')"
  shows "\<not> isl (validate_clean_price U s)"
proof -
  let ?raw = "map (\<lambda>(i, r). (i, cell_of r ''raw_price'')) (rows (data s))"
  have "is_str c \<or> isnull c \<Longrightarrow> \<not> (is_number c \<and> \<not> isnull c)" for c
    by (cases c) auto
  with assms(3) have "\<not> list_ex (\<lambda>(i, c). is_number c \<and> \<not> isnull c) ?raw"
    by (fastforce simp: list_ex_iff)
  then have "str_accessor Object ?raw = Inr ?raw" by (simp add: str_accessor_def)
  with assms(1,2) show ?thesis
    by (simp add: validate_clean_price_def ebind_def lift_def getitem_def setitem_def Let_def)
qed

lemma validate_clean_price_dtype:
  assumes "''raw_price'' \<in> set (columns (data s))" and "validate_clean_price U s = Inr s'"
  shows "dtype_of (data s') ''price'' = Float64"
  using validate_clean_price_data [OF assms(2)] assms(1)
  by (simp add: dtype_of_def delete_conv update_conv)

section \<open>The claims\<close>



text \<open>
  C9. No row that survives the whole pipeline has a null price or a null living area,
  be the null \<^verbatim>\<open>None\<close> or \<^verbatim>\<open>NaN\<close>.
\<close>

theorem final_rows_not_null:
  assumes "validate_and_clean U s = Inr s'" and "(i, r) \<in> set (rows (data s'))"
  shows "cell_of r ''price'' \<noteq> CNull \<and> cell_of r ''living_area'' \<noteq> CNull \<and>
         cell_of r ''price'' \<noteq> CFloat NaN \<and> cell_of r ''living_area'' \<noteq> CFloat NaN"
proof -
  from validate_and_clean_rows [OF assms(1)] assms(2)
  have "ratio_ok (data s') r" by auto
  from ratio_ok_not_null [OF this] show ?thesis by auto
qed

theorem final_rows_not_null_witness:
  "validate_and_clean ascii raw_listing = Inr raw_listing_cleaned \<and>
   (3, cleaned_offer ''13'' (CFloat (Fin 120)) (CFloat (Fin 480000)) ''house'')
      \<in> set (rows (data raw_listing_cleaned)) \<and>
   cell_of (cleaned_offer ''13'' (CFloat (Fin 120)) (CFloat (Fin 480000)) ''house'') ''price''
     \<noteq> CNull \<and>
   cell_of (cleaned_offer ''13'' (CFloat (Fin 120)) (CFloat (Fin 480000)) ''house'')
     ''living_area'' \<noteq> CNull \<and>
   cell_of (cleaned_offer ''13'' (CFloat (Fin 120)) (CFloat (Fin 480000)) ''house'') ''price''
     \<noteq> CFloat NaN \<and>
   cell_of (cleaned_offer ''13'' (CFloat (Fin 120)) (CFloat (Fin 480000)) ''house'')
     ''living_area'' \<noteq> CFloat NaN \<and>
   rows (data raw_listing_priced) =
     [(0, cleaned_offer ''10'' (CFloat (Fin 50)) (CFloat (Fin (2469 / 2))) ''apartment''),
      (1, cleaned_offer ''11'' (CFloat (Fin 80)) (CFloat NaN) ''house''),
      (2, cleaned_offer ''12'' (CFloat NaN) (CFloat (Fin 250000)) ''house''),
      (3, cleaned_offer ''13'' (CFloat (Fin 120)) (CFloat (Fin 480000)) ''house'')] \<and>
   validate_clean_price ascii raw_listing = Inr raw_listing_priced"
proof -
  have run: "validate_and_clean ascii raw_listing = Inr raw_listing_cleaned"
    by (simp add: run_defs example_defs)
  have row: "(3, cleaned_offer ''13'' (CFloat (Fin 120)) (CFloat (Fin 480000)) ''house'')
      \<in> set (rows (data raw_listing_cleaned))"
    by (simp add: raw_listing_cleaned_def)
  have priced: "validate_clean_price ascii raw_listing = Inr raw_listing_priced"
    by (simp add: run_defs example_defs)
  have rws: "rows (data raw_listing_priced) =
     [(0, cleaned_offer ''10'' (CFloat (Fin 50)) (CFloat (Fin (2469 / 2))) ''apartment''),
      (1, cleaned_offer ''11'' (CFloat (Fin 80)) (CFloat NaN) ''house''),
      (2, cleaned_offer ''12'' (CFloat NaN) (CFloat (Fin 250000)) ''house''),
      (3, cleaned_offer ''13'' (CFloat (Fin 120)) (CFloat (Fin 480000)) ''house'')]"
    by (simp add: raw_listing_priced_def)
  from run row priced rws final_rows_not_null [OF run row] show ?thesis by blast
qed

text \<open>
  C6. The id check, the property-type check and the scraping-date check leave the
  record set as it is, whatever they log; each of them returns whenever its column
  exists.
\<close>

theorem log_only_stages_keep_record_set:
  "(validate_id_column U s = Inr s1 \<longrightarrow> data s1 = data s) \<and>
   (validate_property_type s = Inr s2 \<longrightarrow> data s2 = data s) \<and>
   (validate_scraping_date U s = Inr s3 \<longrightarrow> data s3 = data s) \<and>
   (''id'' \<in> set (columns (data s)) \<longrightarrow> \<not> isl (validate_id_column U s)) \<and>
   (''property_type'' \<in> set (columns (data s)) \<longrightarrow> \<not> isl (validate_property_type s)) \<and>
   (''scraping_date'' \<in> set (columns (data s)) \<longrightarrow> \<not> isl (validate_scraping_date U s))"
  using validate_id_column_data [of U s s1] validate_property_type_data [of s s2]
    validate_scraping_date_data [of U s s3] log_only_stage_returns
  by blast

theorem log_only_stages_keep_record_set_witness:
  "validate_id_column ascii scenario = Inr scenario \<and>
   validate_property_type scenario =
     Inr (scenario\<lparr>log_lines :=
       [''Invalid property types. Only 'apartment' or 'house' are allowed. Indices: 0, 1'']\<rparr>) \<and>
   validate_scraping_date ascii scenario =
     Inr (scenario\<lparr>log_lines :=
       [''Invalid date formats in scraping_date. Expected format 'YYYY-MM-DD'. Indices: 0, 1'']\<rparr>) \<and>
   ''id'' \<in> set (columns (data scenario)) \<and>
   ''property_type'' \<in> set (columns (data scenario)) \<and>
   ''scraping_date'' \<in> set (columns (data scenario)) \<and>
   data (scenario\<lparr>log_lines :=
       [''Invalid property types. Only 'apartment' or 'house' are allowed. Indices: 0, 1'']\<rparr>)
     = data scenario \<and>
   \<not> isl (validate_id_column ascii scenario)"
proof -
  have a: "validate_id_column ascii scenario = Inr scenario"
    by (simp add: run_defs example_defs)
  have b: "validate_property_type scenario =
     Inr (scenario\<lparr>log_lines :=
       [''Invalid property types. Only 'apartment' or 'house' are allowed. Indices: 0, 1'']\<rparr>)"
    by (simp add: run_defs example_defs)
  have c: "validate_scraping_date ascii scenario =
     Inr (scenario\<lparr>log_lines :=
       [''Invalid date formats in scraping_date. Expected format 'YYYY-MM-DD'. Indices: 0, 1'']\<rparr>)"
    by (simp add: run_defs example_defs)
  have d: "''id'' \<in> set (columns (data scenario))"
    "''property_type'' \<in> set (columns (data scenario))"
    "''scraping_date'' \<in> set (columns (data scenario))"
    by (simp_all add: example_defs)
  from a b c d log_only_stages_keep_record_set [of ascii scenario scenario
      "scenario\<lparr>log_lines :=
       [''Invalid property types. Only 'apartment' or 'house' are allowed. Indices: 0, 1'']\<rparr>"
      "scenario\<lparr>log_lines :=
       [''Invalid date formats in scraping_date. Expected format 'YYYY-MM-DD'. Indices: 0, 1'']\<rparr>"]
  show ?thesis by blast
qed

text \<open>
  C7. The rows of the final record set are a subsequence of the rows of the input, each
  with its label and, when there is a \<^verbatim>\<open>raw_price\<close> column, with its price rewritten:
  no row is added and no two rows change places.
\<close>

theorem row_order_preserved:
  assumes "validate_and_clean U s = Inr s'"
  shows "subseq (rows (data s'))
           (map (\<lambda>(i, r). (i, if ''raw_price'' \<in> set (columns (data s))
                               then clean_price_row U r else r)) (rows (data s))) \<and>
         subseq (labels (data s')) (labels (data s))"
proof -
  from validate_and_clean_rows [OF assms] obtain s1 s2 where
    st: "validate_id_column U s = Inr s1" "validate_clean_price U s1 = Inr s2"
    and r: "rows (data s') =
       filter (\<lambda>(i, r). ratio_ok (data s') r)
         (filter (\<lambda>(i, r). area_ok r) (rows (data s2)))"
    by blast
  have d1: "data s1 = data s" using validate_id_column_data [OF st(1)] .
  have r2: "rows (data s2) =
      map (\<lambda>(i, r). (i, if ''raw_price'' \<in> set (columns (data s))
                          then clean_price_row U r else r)) (rows (data s))"
    using validate_clean_price_data [OF st(2)] d1 by (auto simp: case_prod_beta)
  have sub: "subseq (rows (data s')) (rows (data s2))"
    unfolding r by (rule subseq_filter_filter)
  have lab: "map fst (rows (data s2)) = map fst (rows (data s))"
    unfolding r2 by (rule labels_map_row)
  have "subseq (map fst (rows (data s'))) (map fst (rows (data s2)))"
    using sub by (rule subseq_map)
  then have l: "subseq (labels (data s')) (labels (data s))"
    unfolding labels_def lab .
  from sub have "subseq (rows (data s'))
      (map (\<lambda>(i, r). (i, if ''raw_price'' \<in> set (columns (data s))
                          then clean_price_row U r else r)) (rows (data s)))"
    unfolding r2 .
  with l show ?thesis by blast
qed

theorem row_order_preserved_witness:
  "validate_and_clean ascii raw_listing = Inr raw_listing_cleaned \<and>
   subseq (rows (data raw_listing_cleaned))
     (map (\<lambda>(i, r). (i, if ''raw_price'' \<in> set (columns (data raw_listing))
                         then clean_price_row ascii r else r)) (rows (data raw_listing))) \<and>
   subseq (labels (data raw_listing_cleaned)) (labels (data raw_listing)) \<and>
   labels (data raw_listing_cleaned) = [3] \<and> labels (data raw_listing) = [0, 1, 2, 3]"
proof -
  have run: "validate_and_clean ascii raw_listing = Inr raw_listing_cleaned"
    by (simp add: run_defs example_defs)
  have "labels (data raw_listing_cleaned) = [3]" "labels (data raw_listing) = [0, 1, 2, 3]"
    by (simp_all add: labels_def raw_listing_cleaned_def raw_listing_def)
  with run row_order_preserved [OF run] show ?thesis by blast
qed

text \<open>
  C10. When the record set lacks the column \<^verbatim>\<open>id\<close>, \<^verbatim>\<open>living_area\<close>,
  \<^verbatim>\<open>property_type\<close> or \<^verbatim>\<open>scraping_date\<close>, or lacks both \<^verbatim>\<open>price\<close> and
  \<^verbatim>\<open>raw_price\<close>, the pipeline ends in an exception. A missing \<^verbatim>\<open>raw_price\<close> alone
  is tolerated by the price stage: it writes one log line and leaves the record set as
  it is.
\<close>

theorem missing_column_raises:
  "(c \<in> {''id'', ''living_area'', ''property_type'', ''scraping_date''} \<and>
      c \<notin> set (columns (data s)) \<longrightarrow> isl (validate_and_clean U s)) \<and>
   (''price'' \<notin> set (columns (data s)) \<and> ''raw_price'' \<notin> set (columns (data s)) \<longrightarrow>
      isl (validate_and_clean U s)) \<and>
   (''id'' \<notin> set (columns (data s)) \<longrightarrow>
      validate_and_clean U s = Inl (KeyError ''id'', log_lines s)) \<and>
   (''raw_price'' \<notin> set (columns (data s)) \<longrightarrow>
      validate_clean_price U s =
        Inr \<lparr> data = data s, log_lines = log_lines s @ [''raw_price column missing.''] \<rparr>)"
proof (intro conjI impI)
  assume "c \<in> {''id'', ''living_area'', ''property_type'', ''scraping_date''} \<and>
      c \<notin> set (columns (data s))"
  then have "\<And>y. validate_and_clean U s \<noteq> Inr y"
    using validate_and_clean_needs_columns [of U s] by auto
  then show "isl (validate_and_clean U s)" by (rule not_Inr_isl)
next
  assume "''price'' \<notin> set (columns (data s)) \<and> ''raw_price'' \<notin> set (columns (data s))"
  then have "\<And>y. validate_and_clean U s \<noteq> Inr y"
    using validate_and_clean_needs_columns(5) [of U s] by auto
  then show "isl (validate_and_clean U s)" by (rule not_Inr_isl)
next
  assume "''id'' \<notin> set (columns (data s))"
  then show "validate_and_clean U s = Inl (KeyError ''id'', log_lines s)"
    by (simp add: validate_and_clean_def validate_id_column_def ebind_def lift_def getitem_def)
next
  assume "''raw_price'' \<notin> set (columns (data s))"
  then show "validate_clean_price U s =
      Inr \<lparr> data = data s, log_lines = log_lines s @ [''raw_price column missing.''] \<rparr>"
    by (simp add: validate_clean_price_def)
qed

theorem missing_column_raises_witness:
  "''living_area'' \<notin> set (columns (data (without_column ''living_area'' scenario))) \<and>
   isl (validate_and_clean ascii (without_column ''living_area'' scenario)) \<and>
   ''price'' \<notin> set (columns (data (without_column ''price'' scenario))) \<and>
   ''raw_price'' \<notin> set (columns (data (without_column ''price'' scenario))) \<and>
   isl (validate_and_clean ascii (without_column ''price'' scenario)) \<and>
   ''id'' \<notin> set (columns (data (without_column ''id'' scenario))) \<and>
   validate_and_clean ascii (without_column ''id'' scenario) = Inl (KeyError ''id'', []) \<and>
   ''raw_price'' \<notin> set (columns (data scenario)) \<and>
   validate_clean_price ascii scenario =
     Inr \<lparr> data = data scenario, log_lines = [''raw_price column missing.''] \<rparr>"
proof -
  have a: "''living_area'' \<in> {''id'', ''living_area'', ''property_type'', ''scraping_date''} \<and>
      ''living_area'' \<notin> set (columns (data (without_column ''living_area'' scenario)))"
    by (simp add: example_defs drop_column_def)
  have b: "''price'' \<notin> set (columns (data (without_column ''price'' scenario))) \<and>
      ''raw_price'' \<notin> set (columns (data (without_column ''price'' scenario)))"
    by (simp add: example_defs drop_column_def)
  have c: "''id'' \<notin> set (columns (data (without_column ''id'' scenario)))"
    by (simp add: example_defs drop_column_def)
  have d: "''raw_price'' \<notin> set (columns (data scenario))"
    by (simp add: example_defs)
  have l: "log_lines (without_column ''id'' scenario) = []" "log_lines scenario = []"
    by (simp_all add: example_defs)
  from a b c d l
    missing_column_raises [of "''living_area''" "without_column ''living_area'' scenario" ascii]
    missing_column_raises [of "''id''" "without_column ''price'' scenario" ascii]
    missing_column_raises [of "''id''" "without_column ''id'' scenario" ascii]
    missing_column_raises [of "''id''" scenario ascii]
  show ?thesis by simp
qed

text \<open>
  C5. When there is a \<^verbatim>\<open>raw_price\<close> column, price cleaning keeps every row, sets its
  price to \<^verbatim>\<open>float\<close> of the first substring of \<^verbatim>\<open>raw_price\<close> that matches
  \<^verbatim>\<open>\d+\.?\d*\<close>, sets the price to \<^verbatim>\<open>NaN\<close> where the cell is no string or no substring
  matches and then writes the log line, which lists the row, and drops the
  \<^verbatim>\<open>raw_price\<close> column. The stage returns on a column of strings and missing values.
\<close>

theorem price_cleaning:
  assumes "''raw_price'' \<in> set (columns (data s))"
  shows "(dtype_of (data s) ''raw_price'' = Object \<and>
          (\<forall>(i, r) \<in> set (rows (data s)).
             is_str (cell_of r ''raw_price'') \<or> isnull (cell_of r ''raw_price'')) \<longrightarrow>
            \<not> isl (validate_clean_price U s)) \<and>
         (validate_clean_price U s = Inr s' \<longrightarrow>
            rows (data s') = map (\<lambda>(i, r). (i, clean_price_row U r)) (rows (data s)) \<and>
            ''raw_price'' \<notin> set (columns (data s')) \<and> ''price'' \<in> set (columns (data s')) \<and>
            dtype_of (data s') ''price'' = Float64 \<and>
            (\<forall>(i, r) \<in> set (rows (data s)).
               map_of (clean_price_row U r) ''raw_price'' = None \<and>
               (\<forall>x m. cell_of r ''raw_price'' = CStr x \<and> first_price_match U x m \<longrightarrow>
                  cell_of (clean_price_row U r) ''price'' = CFloat (float_of_match U m)) \<and>
               ((\<forall>x. cell_of r ''raw_price'' = CStr x \<longrightarrow>
                   \<not> (\<exists>pre m post. x = pre @ m @ post \<and> price_pattern U m)) \<longrightarrow>
                  cell_of (clean_price_row U r) ''price'' = CFloat NaN \<and>
                  i \<in> set (labels (data s)) \<and>
                  log_lines s' =
                    log_lines s @ [log_line ''Invalid or null prices found.'' (labels (data s))])) \<and>
            ((\<forall>(i, r) \<in> set (rows (data s)).
                \<not> isnull (extract_price U (cell_of r ''raw_price''))) \<longrightarrow>
               log_lines s' = log_lines s))"
proof (intro conjI impI)
  assume "dtype_of (data s) ''raw_price'' = Object \<and>
      (\<forall>(i, r) \<in> set (rows (data s)).
         is_str (cell_of r ''raw_price'') \<or> isnull (cell_of r ''raw_price''))"
  then show "\<not> isl (validate_clean_price U s)"
    using validate_clean_price_returns [OF assms] by blast
next
  assume run: "validate_clean_price U s = Inr s'"
  note d = validate_clean_price_data [OF run]
  note l = validate_clean_price_log [OF assms run]
  show "rows (data s') = map (\<lambda>(i, r). (i, clean_price_row U r)) (rows (data s))"
    using d assms by simp
  show "''raw_price'' \<notin> set (columns (data s'))" using d assms by simp
  show "''price'' \<in> set (columns (data s'))" using d assms by simp
  show "dtype_of (data s') ''price'' = Float64"
    using validate_clean_price_dtype [OF assms run] .
  show "log_lines s' = log_lines s"
    if "\<forall>(i, r) \<in> set (rows (data s)). \<not> isnull (extract_price U (cell_of r ''raw_price''))"
    using l that by auto
  show "\<forall>(i, r) \<in> set (rows (data s)).
      map_of (clean_price_row U r) ''raw_price'' = None \<and>
      (\<forall>x m. cell_of r ''raw_price'' = CStr x \<and> first_price_match U x m \<longrightarrow>
         cell_of (clean_price_row U r) ''price'' = CFloat (float_of_match U m)) \<and>
      ((\<forall>x. cell_of r ''raw_price'' = CStr x \<longrightarrow>
          \<not> (\<exists>pre m post. x = pre @ m @ post \<and> price_pattern U m)) \<longrightarrow>
         cell_of (clean_price_row U r) ''price'' = CFloat NaN \<and>
         i \<in> set (labels (data s)) \<and>
         log_lines s' =
           log_lines s @ [log_line ''Invalid or null prices found.'' (labels (data s))])"
  proof (intro ballI, clarify, intro conjI allI impI)
    fix i r
    assume row: "(i, r) \<in> set (rows (data s))"
    show "map_of (clean_price_row U r) ''raw_price'' = None"
      by (rule clean_price_row_cells(2))
    {
      fix x m
      assume "cell_of r ''raw_price'' = CStr x \<and> first_price_match U x m"
      then have "cell_of r ''raw_price'' = CStr x" "search_price U x = Some m"
        by (simp_all add: search_price_iff)
      then show "cell_of (clean_price_row U r) ''price'' = CFloat (float_of_match U m)"
        by (simp add: clean_price_row_cells(1))
    }
    {
      assume n: "\<forall>x. cell_of r ''raw_price'' = CStr x \<longrightarrow>
          \<not> (\<exists>pre m post. x = pre @ m @ post \<and> price_pattern U m)"
      have e: "extract_price U (cell_of r ''raw_price'') = CFloat NaN"
      proof (cases "cell_of r ''raw_price''")
        case (CStr x)
        with n have "search_price U x = None" by (simp add: search_price_None_iff)
        with CStr show ?thesis by simp
      qed simp_all
      then show "cell_of (clean_price_row U r) ''price'' = CFloat NaN"
        by (simp add: clean_price_row_cells(1))
      show "i \<in> set (labels (data s))"
        using row by (force simp: labels_def)
      have "\<exists>(i, r) \<in> set (rows (data s)). isnull (extract_price U (cell_of r ''raw_price''))"
        using row e by force
      then show "log_lines s' =
          log_lines s @ [log_line ''Invalid or null prices found.'' (labels (data s))]"
        using l by simp
    }
  qed
qed

theorem price_cleaning_witness:
  "''raw_price'' \<in> set (columns (data raw_listing)) \<and>
   dtype_of (data raw_listing) ''raw_price'' = Object \<and>
   \<not> isl (validate_clean_price ascii raw_listing) \<and>
   validate_clean_price ascii raw_listing = Inr raw_listing_priced \<and>
   rows (data raw_listing_priced) =
     map (\<lambda>(i, r). (i, clean_price_row ascii r)) (rows (data raw_listing)) \<and>
   ''raw_price'' \<notin> set (columns (data raw_listing_priced)) \<and>
   ''price'' \<in> set (columns (data raw_listing_priced)) \<and>
   first_price_match ascii (8364 # py '' 1234.50 per month'') (py ''1234.50'') \<and>
   float_of_match ascii (py ''1234.50'') = Fin (2469 / 2) \<and>
   cell_of (clean_price_row ascii
       (raw_offer ''10'' (8364 # py '' 1234.50 per month'') (CFloat (Fin 50)) ''apartment''))
     ''price'' = CFloat (float_of_match ascii (py ''1234.50'')) \<and>
   \<not> (\<exists>pre m post. py ''price on request'' = pre @ m @ post \<and> price_pattern ascii m) \<and>
   cell_of (clean_price_row ascii
       (raw_offer ''11'' (py ''price on request'') (CFloat (Fin 80)) ''house''))
     ''price'' = CFloat NaN \<and>
   log_lines raw_listing_priced = [''Invalid or null prices found. Indices: 0, 1, 2, 3'']"
proof -
  have col: "''raw_price'' \<in> set (columns (data raw_listing))"
    by (simp add: example_defs)
  have dt: "dtype_of (data raw_listing) ''raw_price'' = Object"
    by (simp add: dtype_of_def example_defs)
  have strs: "\<forall>(i, r) \<in> set (rows (data raw_listing)).
      is_str (cell_of r ''raw_price'') \<or> isnull (cell_of r ''raw_price'')"
    by (simp add: example_defs cell_of_def)
  have run: "validate_clean_price ascii raw_listing = Inr raw_listing_priced"
    by (simp add: run_defs example_defs)
  have m0: "first_price_match ascii (8364 # py '' 1234.50 per month'') (py ''1234.50'')"
    unfolding search_price_iff [symmetric] by (simp add: run_defs)
  have f0: "float_of_match ascii (py ''1234.50'') = Fin (2469 / 2)"
    by (simp add: run_defs)
  have n1: "\<not> (\<exists>pre m post. py ''price on request'' = pre @ m @ post \<and> price_pattern ascii m)"
    unfolding search_price_None_iff [symmetric] by (simp add: run_defs)
  have r0: "(0, raw_offer ''10'' (8364 # py '' 1234.50 per month'') (CFloat (Fin 50)) ''apartment'')
      \<in> set (rows (data raw_listing))"
    and r1: "(1, raw_offer ''11'' (py ''price on request'') (CFloat (Fin 80)) ''house'')
      \<in> set (rows (data raw_listing))"
    by (simp_all add: raw_listing_def)
  have c0: "cell_of (raw_offer ''10'' (8364 # py '' 1234.50 per month'') (CFloat (Fin 50))
      ''apartment'') ''raw_price'' = CStr (8364 # py '' 1234.50 per month'')"
    and c1: "cell_of (raw_offer ''11'' (py ''price on request'') (CFloat (Fin 80)) ''house'')
      ''raw_price'' = CStr (py ''price on request'')"
    by (simp_all add: raw_offer_def cell_of_def)
  have lg: "log_lines raw_listing_priced = [''Invalid or null prices found. Indices: 0, 1, 2, 3'']"
    by (simp add: raw_listing_priced_def)
  note pc = price_cleaning [OF col, of ascii raw_listing_priced]
  from pc dt strs have ret: "\<not> isl (validate_clean_price ascii raw_listing)" by blast
  note body = mp [OF conjunct2 [OF pc] run]
  note rowwise = conjunct1 [OF conjunct2 [OF conjunct2 [OF conjunct2 [OF conjunct2 [OF body]]]]]
  note b0 = bspec [OF rowwise r0, unfolded prod.case]
  note b1 = bspec [OF rowwise r1, unfolded prod.case]
  from b0 c0 m0 have p0: "cell_of (clean_price_row ascii
       (raw_offer ''10'' (8364 # py '' 1234.50 per month'') (CFloat (Fin 50)) ''apartment''))
     ''price'' = CFloat (float_of_match ascii (py ''1234.50''))" by blast
  from b1 c1 n1 have p1: "cell_of (clean_price_row ascii
       (raw_offer ''11'' (py ''price on request'') (CFloat (Fin 80)) ''house''))
     ''price'' = CFloat NaN" by auto
  from body have rs: "rows (data raw_listing_priced) =
     map (\<lambda>(i, r). (i, clean_price_row ascii r)) (rows (data raw_listing))"
    and cs: "''raw_price'' \<notin> set (columns (data raw_listing_priced))"
      "''price'' \<in> set (columns (data raw_listing_priced))"
    by blast+
  from col dt ret run rs cs m0 f0 p0 n1 p1 lg show ?thesis by blast
qed

end
